theory Spec2Isabelle
  imports Main
begin

section \<open>Go values used by bridge.go\<close>

text \<open>
  Go errors. \<open>errorString\<close> is what \<^verbatim>\<open>errors.New\<close> and a \<^verbatim>\<open>fmt.Errorf\<close> without
  \<^verbatim>\<open>%w\<close> build (the argument is the whole message); \<open>wrapError\<close> is a
  \<^verbatim>\<open>fmt.Errorf("<context>%w", err)\<close>, kept as the context text and the wrapped error;
  \<open>NumError\<close> is \<^verbatim>\<open>strconv.NumError{Func, Num, Err}\<close>. A nil error is \<open>None\<close>.
\<close>

datatype error =
    errorString string
  | wrapError string error
  | NumError string string error

text \<open>
  A Go call either returns or panics. Only the two slice expressions of bridge.go can
  panic, so only the functions that reach them have an \<open>outcome\<close> result.
\<close>

datatype 'a outcome = Panic string | Returns 'a

text \<open>An \<^verbatim>\<open>io.Reader\<close>: nil, or \<^verbatim>\<open>bytes.NewReader\<close> over a byte string.\<close>

datatype Reader = nil_Reader | NewReader string

text \<open>
  The \<^verbatim>\<open>interface{}\<close> parameter of Put and Post: nil, the \<^verbatim>\<open>map[string]string\<close>
  that CreateUser builds, or any other value of the caller.
\<close>

datatype 'a interface = nil | map_string_string "(string \<times> string) list" | other 'a

subsection \<open>strings.Index, strings.LastIndex, strings.Contains and slicing\<close>

fun strings_HasPrefix :: "string \<Rightarrow> string \<Rightarrow> bool" where
  "strings_HasPrefix s [] = True"
| "strings_HasPrefix [] (p # ps) = False"
| "strings_HasPrefix (c # cs) (p # ps) = (c = p \<and> strings_HasPrefix cs ps)"

text \<open>Byte index of the first occurrence of \<open>substr\<close> in \<open>s\<close>, or \<open>-1\<close>.\<close>

fun strings_Index :: "string \<Rightarrow> string \<Rightarrow> int" where
  "strings_Index [] substr = (if substr = [] then 0 else - 1)"
| "strings_Index (c # cs) substr =
     (if strings_HasPrefix (c # cs) substr then 0
      else (let i = strings_Index cs substr in if i < 0 then - 1 else i + 1))"

text \<open>Byte index of the last occurrence of \<open>substr\<close> in \<open>s\<close>, or \<open>-1\<close>.\<close>

fun strings_LastIndex :: "string \<Rightarrow> string \<Rightarrow> int" where
  "strings_LastIndex [] substr = (if substr = [] then 0 else - 1)"
| "strings_LastIndex (c # cs) substr =
     (let i = strings_LastIndex cs substr in
      if 0 \<le> i then i + 1
      else if strings_HasPrefix (c # cs) substr then 0 else - 1)"

definition strings_Contains :: "string \<Rightarrow> string \<Rightarrow> bool" where
  "strings_Contains s substr = (0 \<le> strings_Index s substr)"

text \<open>
  The slice expression \<^verbatim>\<open>s[lo:hi]\<close> on a string: a run-time panic unless
  \<open>0 \<le> lo \<le> hi \<le> len(s)\<close>.
\<close>

definition slice :: "string \<Rightarrow> int \<Rightarrow> int \<Rightarrow> string outcome" where
  "slice s lo hi =
     (if 0 \<le> lo \<and> lo \<le> hi \<and> hi \<le> int (length s)
      then Returns (take (nat hi - nat lo) (drop (nat lo) s))
      else Panic ''runtime error: slice bounds out of range'')"

subsection \<open>The Bridge and its store\<close>

record Device =
  Device_XMLName :: "string \<times> string"
  DeviceType :: string
  FriendlyName :: string
  Manufacturer :: string
  ManufacturerURL :: string
  ModelDescription :: string
  ModelName :: string
  ModelNumber :: string
  ModelURL :: string
  SerialNumber :: string
  UDN :: string

record BridgeInfo =
  XMLName :: "string \<times> string"
  Device :: Device

record Bridge =
  IPAddress :: string
  Username :: string
  Info :: BridgeInfo

text \<open>The zero values \<^verbatim>\<open>BridgeInfo{}\<close> and \<^verbatim>\<open>Bridge{}\<close>.\<close>

definition BridgeInfo_zero :: BridgeInfo where
  "BridgeInfo_zero =
     \<lparr>XMLName = ('''', ''''),
      Device = \<lparr>Device_XMLName = ('''', ''''), DeviceType = '''', FriendlyName = '''',
        Manufacturer = '''', ManufacturerURL = '''', ModelDescription = '''',
        ModelName = '''', ModelNumber = '''', ModelURL = '''', SerialNumber = '''',
        UDN = ''''\<rparr>\<rparr>"

definition Bridge_zero :: Bridge where
  "Bridge_zero = \<lparr>IPAddress = '''', Username = '''', Info = BridgeInfo_zero\<rparr>"

text \<open>
  Methods have the receiver \<^verbatim>\<open>*Bridge\<close>, and lights and sensors keep that pointer, so
  Bridge values live in a store: a pointer is an address, \<open>cells\<close> gives the Bridge at
  an address and \<open>nextp\<close> is the next address that \<open>new\<close> hands out.
\<close>

type_synonym ptr = nat

record store =
  nextp :: nat
  cells :: "ptr \<Rightarrow> Bridge"

definition load :: "store \<Rightarrow> ptr \<Rightarrow> Bridge" where
  "load s p = cells s p"

definition new :: "store \<Rightarrow> Bridge \<Rightarrow> store \<times> ptr" where
  "new s b = (s\<lparr>nextp := Suc (nextp s), cells := (cells s)(nextp s := b)\<rparr>, nextp s)"

subsection \<open>Lights and sensors\<close>

text \<open>
  Modelled from the spec: the struct types Light and Sensor are declared in light.go and
  sensor.go, which are not among the sources. The spec gives each a numeric index, a
  name, the state fields the bridge sends, and a back-reference to the Bridge;
  bridge.go itself uses \<^verbatim>\<open>Index\<close>, \<^verbatim>\<open>Bridge\<close> and \<^verbatim>\<open>Name\<close>. The remaining fields are kept
  as a list of (field name, value text) pairs. A nil back-reference is \<open>None\<close>.
\<close>

record Light =
  Name :: string
  Index :: int
  Bridge :: "ptr option"
  Fields :: "(string \<times> string) list"

record Sensor =
  Sensor_Name :: string
  Sensor_Index :: int
  Sensor_Bridge :: "ptr option"
  Sensor_Fields :: "(string \<times> string) list"

definition Light_zero :: Light where
  "Light_zero = \<lparr>Name = '''', Index = 0, Bridge = None, Fields = []\<rparr>"

definition Sensor_zero :: Sensor where
  "Sensor_zero =
     \<lparr>Sensor_Name = '''', Sensor_Index = 0, Sensor_Bridge = None, Sensor_Fields = []\<rparr>"

subsection \<open>The world outside the package\<close>

text \<open>
  What \<^verbatim>\<open>ioutil.ReadAll(resp.Body)\<close> yields is part of the response: a read error or the
  whole body. The status code and headers are only logged.
\<close>

record Response =
  StatusCode :: int
  Body :: "error + string"

text \<open>A request built by \<^verbatim>\<open>http.NewRequest\<close>: method, URL, body (\<open>None\<close> for a nil body).\<close>

type_synonym Request = "string \<times> string \<times> string option"

text \<open>
  The library calls of net/http, encoding/json and encoding/xml are parameters: one
  field per call that bridge.go makes. \<open>json_Unmarshal_*\<close> and \<open>xml_Decode\<close> give the
  value left in the target and the error; a decoded Go map is given as the list of its
  entries in the order in which the following \<^verbatim>\<open>range\<close> loop visits them.
\<close>

record 'a env =
  client_Get :: "string \<Rightarrow> error + Response"
  client_Post :: "string \<Rightarrow> string \<Rightarrow> string \<Rightarrow> error + Response"
  http_NewRequest :: "string \<Rightarrow> string \<Rightarrow> string option \<Rightarrow> error + Request"
  client_Do :: "Request \<Rightarrow> error + Response"
  json_Marshal :: "'a interface \<Rightarrow> error + string"
  json_Unmarshal_Bridges :: "string \<Rightarrow> Bridge list \<times> error option"
  json_Unmarshal_LightMap :: "string \<Rightarrow> (string \<times> Light) list \<times> error option"
  json_Unmarshal_Light :: "string \<Rightarrow> Light \<times> error option"
  json_Unmarshal_SensorMap :: "string \<Rightarrow> (string \<times> Sensor) list \<times> error option"
  json_Unmarshal_Sensor :: "string \<Rightarrow> Sensor \<times> error option"
  xml_Decode :: "Reader \<Rightarrow> BridgeInfo \<times> error option"

section \<open>Transport helper\<close>

definition uri :: "Bridge \<Rightarrow> string \<Rightarrow> string" where
  "uri b path = ''http://'' @ IPAddress b @ path"

text \<open>The log lines of the source do not affect any result and are left out.\<close>

definition Get :: "'a env \<Rightarrow> Bridge \<Rightarrow> string \<Rightarrow> string \<times> Reader \<times> error option" where
  "Get env bridge path =
     (case client_Get env (uri bridge path) of
        Inl err \<Rightarrow> ('''', nil_Reader, Some (wrapError ''unable to access bridge: '' err))
      | Inr resp \<Rightarrow>
          (case Body resp of
             Inl err \<Rightarrow>
               ('''', nil_Reader, Some (wrapError ''unable to read response body: '' err))
           | Inr body \<Rightarrow> (body, NewReader body, None)))"

definition HandleResponse :: "Response \<Rightarrow> (string \<times> Reader \<times> error option) outcome" where
  \<open>HandleResponse resp =
     (case Body resp of
        Inl err \<Rightarrow> Returns ('''', nil_Reader, Some (wrapError ''unable to read response: '' err))
      | Inr body \<Rightarrow>
          (let reader = NewReader body in
           if strings_Contains body ''"error"'' then
             (let errString = body in
              case slice errString (strings_Index errString ''type":'' + 6)
                     (strings_Index errString '',"address'') of
                Panic m \<Rightarrow> Panic m
              | Returns errNum \<Rightarrow>
                  (case slice errString (strings_Index errString ''description":"'' + 14)
                          (strings_Index errString ''"}}'') of
                     Panic m \<Rightarrow> Panic m
                   | Returns errDesc \<Rightarrow>
                       Returns ('''', nil_Reader,
                         Some (errorString (''failed to handle response: error type ''
                                 @ errNum @ '': '' @ errDesc)))))
           else Returns (body, reader, None)))\<close>

definition Put ::
  "'a env \<Rightarrow> Bridge \<Rightarrow> string \<Rightarrow> 'a interface \<Rightarrow> (string \<times> Reader \<times> error option) outcome"
where
  "Put env bridge path params =
     (case json_Marshal env params of
        Inl err \<Rightarrow>
          Returns ('''', nil_Reader,
            Some (wrapError ''unable to marshal PUT request interface: '' err))
      | Inr data \<Rightarrow>
          (case http_NewRequest env ''PUT'' (uri bridge path) (Some data) of
             Inl err \<Rightarrow>
               Returns ('''', nil_Reader,
                 Some (wrapError ''unable to create PUT request: '' err))
           | Inr request \<Rightarrow>
               (case client_Do env request of
                  Inl err \<Rightarrow>
                    Returns ('''', nil_Reader,
                      Some (wrapError ''unable to access bridge: '' err))
                | Inr resp \<Rightarrow> HandleResponse resp)))"

definition Post_send ::
  "'a env \<Rightarrow> Bridge \<Rightarrow> string \<Rightarrow> string \<Rightarrow> (string \<times> Reader \<times> error option) outcome"
where
  "Post_send env bridge path request =
     (case client_Post env (uri bridge path) ''text/json'' request of
        Inl err \<Rightarrow>
          Returns ('''', nil_Reader, Some (wrapError ''unable to access bridge: '' err))
      | Inr resp \<Rightarrow> HandleResponse resp)"

text \<open>
  Post: the request body stays the nil byte slice (read as the empty body) when
  \<open>params\<close> is nil; \<open>Post_send\<close> is the second half of the source function.
\<close>

definition Post ::
  "'a env \<Rightarrow> Bridge \<Rightarrow> string \<Rightarrow> 'a interface \<Rightarrow> (string \<times> Reader \<times> error option) outcome"
where
  "Post env bridge path params =
     (if params \<noteq> nil then
        (case json_Marshal env params of
           Inl err \<Rightarrow>
             Returns ('''', nil_Reader,
               Some (wrapError
                 ''unable to add POST body parameters due to json marshalling error: '' err))
         | Inr reqBody \<Rightarrow> Post_send env bridge path reqBody)
      else Post_send env bridge path '''')"

definition Delete :: "'a env \<Rightarrow> Bridge \<Rightarrow> string \<Rightarrow> error option outcome" where
  "Delete env bridge path =
     (case http_NewRequest env ''DELETE'' (uri bridge path) None of
        Inl err \<Rightarrow> Returns (Some (wrapError ''unable to create DELETE request: '' err))
      | Inr req \<Rightarrow>
          (case client_Do env req of
             Inl err \<Rightarrow> Returns (Some (wrapError ''unable to access bridge: '' err))
           | Inr resp \<Rightarrow>
               (case HandleResponse resp of
                  Panic m \<Rightarrow> Panic m
                | Returns (_, _, None) \<Rightarrow> Returns None
                | Returns (_, _, Some err) \<Rightarrow>
                    Returns (Some (wrapError ''unable to access bridge: '' err)))))"

section \<open>Discovery, identity and authentication\<close>

definition FindBridges :: "'a env \<Rightarrow> Bridge list \<times> error option" where
  "FindBridges env =
     (let bridge = Bridge_zero\<lparr>IPAddress := ''www.meethue.com''\<rparr> in
      case Get env bridge ''/api/nupnp'' of
        (_, _, Some err) \<Rightarrow> ([], Some (wrapError ''unable to locate bridge: '' err))
      | (body, _, None) \<Rightarrow>
          (case json_Unmarshal_Bridges env body of
             (bridges, Some err) \<Rightarrow>
               (bridges, Some (wrapError ''unable to unmarshal bridge list: '' err))
           | (bridges, None) \<Rightarrow>
               if length bridges = 0 then (bridges, Some (errorString ''no bridges found''))
               else (bridges, None)))"

definition GetInfo :: "'a env \<Rightarrow> store \<Rightarrow> ptr \<Rightarrow> store \<times> error option" where
  "GetInfo env s bridge =
     (case Get env (load s bridge) ''/description.xml'' of
        (_, _, Some err) \<Rightarrow> (s, Some err)
      | (_, reader, None) \<Rightarrow>
          (case xml_Decode env reader of
             (_, Some err) \<Rightarrow>
               (s, Some (wrapError
                  ''failed to decode xml response from bridge description: '' err))
           | (data, None) \<Rightarrow>
               (s\<lparr>cells := (cells s)(bridge := (load s bridge)\<lparr>Info := data\<rparr>)\<rparr>, None)))"

text \<open>
  NewBridge returns a pointer to its local variable, or on error a pointer to a fresh
  \<^verbatim>\<open>Bridge{}\<close>; both are new cells of the store.
\<close>

definition NewBridge :: "'a env \<Rightarrow> store \<Rightarrow> string \<Rightarrow> store \<times> ptr \<times> error option" where
  "NewBridge env s ip =
     (let (s1, bridge) = new s (Bridge_zero\<lparr>IPAddress := ip\<rparr>) in
      case GetInfo env s1 bridge of
        (s2, Some err) \<Rightarrow> (let (s3, p) = new s2 Bridge_zero in (s3, p, Some err))
      | (s2, None) \<Rightarrow> (s2, bridge, None))"

definition Login :: "'a env \<Rightarrow> store \<Rightarrow> ptr \<Rightarrow> string \<Rightarrow> store \<times> error option" where
  "Login env s bridge username =
     (let uri = ''/api/'' @ username in
      case Get env (load s bridge) uri of
        (_, _, Some err) \<Rightarrow> (s, Some err)
      | (_, _, None) \<Rightarrow>
          (s\<lparr>cells := (cells s)(bridge := (load s bridge)\<lparr>Username := username\<rparr>)\<rparr>, None))"

definition CreateUser ::
  "'a env \<Rightarrow> store \<Rightarrow> ptr \<Rightarrow> string \<Rightarrow> (store \<times> string \<times> error option) outcome"
where
  \<open>CreateUser env s bridge deviceType =
     (let params = map_string_string [(''devicetype'', deviceType)] in
      case Post env (load s bridge) ''/api'' params of
        Panic m \<Rightarrow> Panic m
      | Returns (_, _, Some err) \<Rightarrow> Returns (s, '''', Some err)
      | Returns (body, _, None) \<Rightarrow>
          (let content = body in
           case slice content (strings_LastIndex content '':"'' + 2) (strings_LastIndex content ''"'') of
             Panic m \<Rightarrow> Panic m
           | Returns username \<Rightarrow>
               Returns
                 (s\<lparr>cells := (cells s)(bridge := (load s bridge)\<lparr>Username := username\<rparr>)\<rparr>,
                  username, None)))\<close>

definition DeleteUser :: "'a env \<Rightarrow> store \<Rightarrow> ptr \<Rightarrow> string \<Rightarrow> error option outcome" where
  "DeleteUser env s bridge username =
     (let uri = ''/api/'' @ Username (load s bridge) @ ''/config/whitelist/'' @ username in
      Delete env (load s bridge) uri)"

section \<open>Resource accessors\<close>

subsection \<open>strconv.Atoi and the \<^verbatim>\<open>%d\<close> verb\<close>

definition ErrSyntax :: error where
  "ErrSyntax = errorString ''invalid syntax''"

definition ErrRange :: error where
  "ErrRange = errorString ''value out of range''"

definition is_digit :: "char \<Rightarrow> bool" where
  "is_digit c = (c \<in> set ''0123456789'')"

definition digit_val :: "char \<Rightarrow> nat" where
  "digit_val c = of_char c - 48"

text \<open>
  The digit loop of \<^verbatim>\<open>strconv.ParseUint(s, 10, 64)\<close>: the value read so far, and the
  error at the first byte that is no digit or at the first overflow of 64 bits.
\<close>

fun ParseUint_loop :: "nat \<Rightarrow> string \<Rightarrow> nat \<times> error option" where
  "ParseUint_loop n [] = (n, None)"
| "ParseUint_loop n (c # cs) =
     (if \<not> is_digit c then (0, Some ErrSyntax)
      else if n \<ge> (2 ^ 64 - 1) div 10 + 1 then (2 ^ 64 - 1, Some ErrRange)
      else (let n1 = n * 10 + digit_val c in
            if n1 > 2 ^ 64 - 1 then (2 ^ 64 - 1, Some ErrRange)
            else ParseUint_loop n1 cs))"

text \<open>
  \<^verbatim>\<open>strconv.Atoi\<close> of the Go standard library, for the 64-bit \<^verbatim>\<open>int\<close>: an optional sign,
  then one or more decimal digits, with a range error outside \<open>-2^63 .. 2^63 - 1\<close>. Its
  short-input fast path gives the same results and is not written out.
\<close>

definition strconv_Atoi :: "string \<Rightarrow> int \<times> error option" where
  "strconv_Atoi s =
     (if s = [] then (0, Some (NumError ''Atoi'' s ErrSyntax))
      else
        (let neg = (hd s = CHR ''-'');
             s1 = (if hd s = CHR ''+'' \<or> hd s = CHR ''-'' then tl s else s)
         in if s1 = [] then (0, Some (NumError ''Atoi'' s ErrSyntax))
            else
              (case ParseUint_loop 0 s1 of
                 (un, err) \<Rightarrow>
                   if err = Some ErrSyntax then (0, Some (NumError ''Atoi'' s ErrSyntax))
                   else if \<not> neg \<and> un \<ge> 2 ^ 63
                     then (2 ^ 63 - 1, Some (NumError ''Atoi'' s ErrRange))
                   else if neg \<and> un > 2 ^ 63
                     then (- (2 ^ 63), Some (NumError ''Atoi'' s ErrRange))
                   else (if neg then - int un else int un, None))))"

text \<open>The decimal text that \<^verbatim>\<open>%d\<close> prints for an \<^verbatim>\<open>int\<close>.\<close>

function Itoa_nat :: "nat \<Rightarrow> string" where
  "Itoa_nat n =
     (if n < 10 then [''0123456789'' ! n]
      else Itoa_nat (n div 10) @ [''0123456789'' ! (n mod 10)])"
  by pat_completeness auto
termination
  by (relation "measure id") auto

declare Itoa_nat.simps [simp del]

definition Itoa :: "int \<Rightarrow> string" where
  "Itoa i = (if i < 0 then ''-'' @ Itoa_nat (nat (- i)) else Itoa_nat (nat i))"

subsection \<open>Lights\<close>

text \<open>
  The \<^verbatim>\<open>range\<close> loop of GetAllLights over the decoded map, with the slice built so far.
\<close>

fun GetAllLights_range ::
  "ptr \<Rightarrow> (string \<times> Light) list \<Rightarrow> Light list \<Rightarrow> Light list \<times> error option"
where
  "GetAllLights_range bridge [] lights = (lights, None)"
| "GetAllLights_range bridge ((index, light) # rest) lights =
     (case strconv_Atoi index of
        (_, Some err) \<Rightarrow>
          ([], Some (wrapError ''unable to convert light index to integer: '' err))
      | (n, None) \<Rightarrow>
          GetAllLights_range bridge rest
            (lights @ [light\<lparr>Index := n, Bridge := Some bridge\<rparr>]))"

definition GetAllLights :: "'a env \<Rightarrow> store \<Rightarrow> ptr \<Rightarrow> Light list \<times> error option" where
  "GetAllLights env s bridge =
     (let uri = ''/api/'' @ Username (load s bridge) @ ''/lights'' in
      case Get env (load s bridge) uri of
        (_, _, Some err) \<Rightarrow> ([], Some err)
      | (body, _, None) \<Rightarrow>
          (case json_Unmarshal_LightMap env body of
             (_, Some err) \<Rightarrow>
               ([], Some (wrapError ''unable to marshal GetAllLights response: '' err))
           | (lightMap, None) \<Rightarrow> GetAllLights_range bridge lightMap []))"

definition GetLightByIndex :: "'a env \<Rightarrow> store \<Rightarrow> ptr \<Rightarrow> int \<Rightarrow> Light \<times> error option" where
  "GetLightByIndex env s bridge index =
     (let uri = ''/api/'' @ Username (load s bridge) @ ''/lights/'' @ Itoa index in
      case Get env (load s bridge) uri of
        (_, _, Some err) \<Rightarrow> (Light_zero, Some err)
      | (body, _, None) \<Rightarrow>
          if strings_Contains body ''not available''
          then (Light_zero,
                Some (errorString ''Error: Light selection index out of bounds. ''))
          else
            (case json_Unmarshal_Light env body of
               (_, Some err) \<Rightarrow>
                 (Light_zero, Some (wrapError ''unable to unmarshal light data: '' err))
             | (light, None) \<Rightarrow> (light\<lparr>Index := index, Bridge := Some bridge\<rparr>, None)))"

definition FindNewLights :: "'a env \<Rightarrow> store \<Rightarrow> ptr \<Rightarrow> error option outcome" where
  "FindNewLights env s bridge =
     (let uri = ''/api/'' @ Username (load s bridge) @ ''/lights'' in
      case Post env (load s bridge) uri nil of
        Panic m \<Rightarrow> Panic m
      | Returns (_, _, err) \<Rightarrow> Returns err)"

subsection \<open>Sensors\<close>

fun GetAllSensors_range ::
  "ptr \<Rightarrow> (string \<times> Sensor) list \<Rightarrow> Sensor list \<Rightarrow> Sensor list \<times> error option"
where
  "GetAllSensors_range bridge [] sensors = (sensors, None)"
| "GetAllSensors_range bridge ((index, sensor) # rest) sensors =
     (case strconv_Atoi index of
        (_, Some err) \<Rightarrow>
          ([], Some (wrapError ''unable to convert sensor index to integer: '' err))
      | (n, None) \<Rightarrow>
          GetAllSensors_range bridge rest
            (sensors @ [sensor\<lparr>Sensor_Index := n, Sensor_Bridge := Some bridge\<rparr>]))"

definition GetAllSensors :: "'a env \<Rightarrow> store \<Rightarrow> ptr \<Rightarrow> Sensor list \<times> error option" where
  "GetAllSensors env s bridge =
     (let uri = ''/api/'' @ Username (load s bridge) @ ''/sensors'' in
      case Get env (load s bridge) uri of
        (_, _, Some err) \<Rightarrow> ([], Some err)
      | (body, _, None) \<Rightarrow>
          (case json_Unmarshal_SensorMap env body of
             (_, Some err) \<Rightarrow>
               ([], Some (wrapError ''unable to marshal GetAllSensors response: '' err))
           | (sensorList, None) \<Rightarrow> GetAllSensors_range bridge sensorList []))"

definition GetSensorByIndex ::
  "'a env \<Rightarrow> store \<Rightarrow> ptr \<Rightarrow> int \<Rightarrow> Sensor \<times> error option"
where
  "GetSensorByIndex env s bridge index =
     (let uri = ''/api/'' @ Username (load s bridge) @ ''/sensors/'' @ Itoa index in
      case Get env (load s bridge) uri of
        (_, _, Some err) \<Rightarrow> (Sensor_zero, Some err)
      | (body, _, None) \<Rightarrow>
          if strings_Contains body ''not available''
          then (Sensor_zero, Some (errorString ''Sensor selection index out of bounds. ''))
          else
            (case json_Unmarshal_Sensor env body of
               (_, Some err) \<Rightarrow>
                 (Sensor_zero, Some (wrapError ''unable to unmarshal light data: '' err))
             | (sensor, None) \<Rightarrow>
                 (sensor\<lparr>Sensor_Index := index, Sensor_Bridge := Some bridge\<rparr>, None)))"

section \<open>The spec's shapes and example worlds\<close>

text \<open>
  The error envelope as the spec documents it, for a type text \<open>N\<close>, an address text
  \<open>A\<close> and a description text \<open>D\<close>:
  \<^verbatim>\<open>[{"error":{"type":N,"address":"A","description":"D"}}]\<close>.
\<close>

definition error_envelope :: "string \<Rightarrow> string \<Rightarrow> string \<Rightarrow> string" where
  \<open>error_envelope N A D =
     ''[{"error":{"type":'' @ N @ '',"address":"'' @ A @ ''","description":"'' @ D @ ''"}}]''\<close>

text \<open>
  A decimal key in the spec's sense, written without reference to \<open>strconv_Atoi\<close>: an
  optional sign and then at least one digit; and the integer it denotes.
\<close>

definition decimal_nat :: "string \<Rightarrow> nat" where
  "decimal_nat ds = foldl (\<lambda>n c. n * 10 + digit_val c) 0 ds"

definition decimal_key :: "string \<Rightarrow> bool" where
  "decimal_key k =
     (case k of
        [] \<Rightarrow> False
      | c # cs \<Rightarrow>
          if c = CHR ''+'' \<or> c = CHR ''-'' then cs \<noteq> [] \<and> list_all is_digit cs
          else list_all is_digit k)"

definition key_value :: "string \<Rightarrow> int" where
  "key_value k =
     (case k of
        [] \<Rightarrow> 0
      | c # cs \<Rightarrow>
          if c = CHR ''-'' then - int (decimal_nat cs)
          else if c = CHR ''+'' then int (decimal_nat cs)
          else int (decimal_nat k))"

text \<open>
  A world in which every HTTP call is answered with status 200 and the given body, and
  the decoders find nothing; and a store with a Bridge at address 0.
\<close>

definition serving :: "string \<Rightarrow> unit env" where
  "serving body =
     \<lparr>client_Get = (\<lambda>url. Inr \<lparr>StatusCode = 200, Body = Inr body\<rparr>),
      client_Post = (\<lambda>url contentType data. Inr \<lparr>StatusCode = 200, Body = Inr body\<rparr>),
      http_NewRequest = (\<lambda>method url data. Inr (method, url, data)),
      client_Do = (\<lambda>req. Inr \<lparr>StatusCode = 200, Body = Inr body\<rparr>),
      json_Marshal = (\<lambda>v. Inr ''{}''),
      json_Unmarshal_Bridges = (\<lambda>b. ([], None)),
      json_Unmarshal_LightMap = (\<lambda>b. ([], None)),
      json_Unmarshal_Light = (\<lambda>b. (Light_zero, None)),
      json_Unmarshal_SensorMap = (\<lambda>b. ([], None)),
      json_Unmarshal_Sensor = (\<lambda>b. (Sensor_zero, None)),
      xml_Decode = (\<lambda>r. (BridgeInfo_zero, None))\<rparr>"

definition store0 :: store where
  "store0 = \<lparr>nextp = 1, cells = (\<lambda>p. Bridge_zero\<lparr>IPAddress := ''192.168.1.2''\<rparr>)\<rparr>"

text \<open>What a bridge answers to a token it does not know.\<close>

definition unauthorized :: string where
  \<open>unauthorized = ''[{"error":{"type":1,"address":"/","description":"unauthorized user"}}]''\<close>

text \<open>Example lights and a sensor as the decoder leaves them, and a world that decodes them.\<close>

definition light7 :: Light where
  "light7 = \<lparr>Name = ''Desk'', Index = 0, Bridge = None, Fields = [(''on'', ''true'')]\<rparr>"

definition light2 :: Light where
  "light2 = \<lparr>Name = ''Hall'', Index = 0, Bridge = None, Fields = [(''on'', ''false'')]\<rparr>"

definition sensor7 :: Sensor where
  "sensor7 = \<lparr>Sensor_Name = ''Dimmer'', Sensor_Index = 0, Sensor_Bridge = None,
      Sensor_Fields = []\<rparr>"

definition serving_maps :: "(string \<times> Light) list \<Rightarrow> (string \<times> Sensor) list \<Rightarrow> unit env" where
  "serving_maps lights sensors =
     (serving ''{}'')\<lparr>json_Unmarshal_LightMap := (\<lambda>b. (lights, None)),
                    json_Unmarshal_SensorMap := (\<lambda>b. (sensors, None))\<rparr>"

text \<open>
  A description with an escaped quote, \<^verbatim>\<open>value \"}}\" rejected\<close>; the answer of a bridge
  to the GET of a light it does not have; and a self-description with what the decoder
  reads from it.
\<close>

definition escaped_description :: string where
  \<open>escaped_description = ''value '' @ [CHR 0x5C] @ ''"}}'' @ [CHR 0x5C] @ ''" rejected''\<close>

definition not_available :: string where
  \<open>not_available =
     ''[{"error":{"type":3,"address":"/lights/99","description":"resource, /lights/99, not available"}}]''\<close>

definition description_xml :: string where
  "description_xml = ''<root><device><friendlyName>Philips hue</friendlyName></device></root>''"

definition hue_info :: BridgeInfo where
  "hue_info = BridgeInfo_zero\<lparr>XMLName := ([], ''root''),
     Device := (Device BridgeInfo_zero)\<lparr>Device_XMLName := ([], ''device''),
       FriendlyName := ''Philips hue''\<rparr>\<rparr>"

text \<open>
  Further texts for the envelope: an address that holds the description marker, and a
  description with escaped quotes, \<^verbatim>\<open>parameter, \"bri\", not available\<close>.
\<close>

definition duplicated_description :: string where
  \<open>duplicated_description = ''/lights","description":"first''\<close>

definition quoted_description :: string where
  \<open>quoted_description = ''parameter, '' @ [CHR 0x5C] @ ''"bri'' @ [CHR 0x5C] @ ''", not available''\<close>

text \<open>
  Worlds in which the GET fails, the body cannot be read, or the decoders fail; a world
  with one bridge in the discovery list; and a world whose maps hold keys beyond the
  64-bit \<^verbatim>\<open>int\<close>.
\<close>

definition failing_get :: "unit env" where
  "failing_get = (serving [])\<lparr>client_Get := (\<lambda>url. Inl (errorString ''dial tcp: timeout''))\<rparr>"

definition failing_read :: "unit env" where
  "failing_read =
     (serving [])\<lparr>client_Get :=
        (\<lambda>url. Inr \<lparr>StatusCode = 200, Body = Inl (errorString ''unexpected EOF'')\<rparr>)\<rparr>"

definition failing_decode :: "unit env" where
  "failing_decode =
     (serving ''<html>'')\<lparr>json_Unmarshal_Bridges :=
        (\<lambda>b. ([], Some (errorString ''invalid character''))),
      json_Unmarshal_Light := (\<lambda>b. (Light_zero, Some (errorString ''invalid character''))),
      json_Unmarshal_Sensor := (\<lambda>b. (Sensor_zero, Some (errorString ''invalid character'')))\<rparr>"

definition one_bridge :: "unit env" where
  \<open>one_bridge =
     (serving ''[{"internalipaddress":"192.168.1.2"}]'')\<lparr>json_Unmarshal_Bridges :=
        (\<lambda>b. ([Bridge_zero\<lparr>IPAddress := ''192.168.1.2''\<rparr>], None))\<rparr>\<close>

definition range_keys :: "unit env" where
  "range_keys =
     serving_maps [(''7'', light7), (''9223372036854775808'', light2)]
       [(''-9223372036854775809'', sensor7)]"


section \<open>Substring search on a string with unknown parts\<close>

lemma HasPrefix_take: "strings_HasPrefix s p = (take (length p) s = p)"
  by (induction s p rule: strings_HasPrefix.induct) auto

lemma Contains_Cons:
  "strings_Contains (x # xs) p = (strings_HasPrefix (x # xs) p \<or> strings_Contains xs p)"
  by (simp add: strings_Contains_def Let_def)

lemma HasPrefix_straddle:
  assumes "strings_HasPrefix (a @ ys) p" "\<not> strings_HasPrefix a p" "ys \<noteq> []"
  shows "hd ys \<in> set (drop (length a) p)"
proof -
  from assms(1) have t: "take (length p) (a @ ys) = p"
    by (simp add: HasPrefix_take)
  have lt: "length a < length p"
  proof (rule ccontr)
    assume "\<not> length a < length p"
    with t have "take (length p) a = p" by simp
    with assms(2) show False by (simp add: HasPrefix_take)
  qed
  with t have p: "p = a @ take (length p - length a) ys"
    by simp
  from lt assms(3) obtain r where "take (length p - length a) ys = hd ys # r"
    by (cases ys; cases "length p - length a") auto
  with p have "drop (length a) p = hd ys # r"
    by (metis append_eq_conv_conj)
  then show ?thesis by simp
qed

lemma Index_skip:
  assumes "\<not> strings_Contains xs p" "ys \<noteq> []" "hd ys \<notin> set (tl p)"
    "0 \<le> strings_Index ys p"
  shows "strings_Index (xs @ ys) p = int (length xs) + strings_Index ys p"
  using assms(1)
proof (induction xs)
  case Nil
  then show ?case by simp
next
  case (Cons x xs)
  from Cons.prems have np: "\<not> strings_HasPrefix (x # xs) p" and nc: "\<not> strings_Contains xs p"
    by (simp_all add: Contains_Cons)
  have "\<not> strings_HasPrefix ((x # xs) @ ys) p"
  proof
    assume "strings_HasPrefix ((x # xs) @ ys) p"
    from HasPrefix_straddle [OF this np assms(2)]
    have "hd ys \<in> set (drop (Suc (length xs)) p)" by simp
    then have "hd ys \<in> set (tl p)"
      by (metis drop_Suc in_set_dropD)
    with assms(3) show False by simp
  qed
  with Cons.IH [OF nc] assms(4) show ?case
    by (simp add: Let_def)
qed

lemma slice_middle:
  "lo = int (length u) \<Longrightarrow> hi = int (length u) + int (length m) \<Longrightarrow>
   slice (u @ m @ w) lo hi = Returns m"
  by (simp add: slice_def nat_add_distrib)

lemma Index_error_envelope:
  assumes N: \<open>\<not> strings_Contains N '',"address''\<close>
      \<open>\<not> strings_Contains N ''description":"''\<close>
      \<open>\<not> strings_Contains N ''"}}''\<close>
    and A: \<open>\<not> strings_Contains (A @ [CHR 0x22]) ''description":"''\<close>
      \<open>\<not> strings_Contains (CHR 0x22 # A) ''"}}''\<close>
    and D: \<open>\<not> strings_Contains (CHR 0x22 # D) ''"}}''\<close>
  shows \<open>strings_Index (error_envelope N A D) ''type":'' + 6 = 18\<close>
    and \<open>strings_Index (error_envelope N A D) '',"address'' = 18 + int (length N)\<close>
    and \<open>strings_Index (error_envelope N A D) ''description":"'' + 14 =
           47 + int (length N) + int (length A)\<close>
    and \<open>strings_Index (error_envelope N A D) ''"}}'' =
           47 + int (length N) + int (length A) + int (length D)\<close>
proof -
  define t3 where \<open>t3 = ''"}}]''\<close>
  define qD where \<open>qD = CHR 0x22 # D\<close>
  define u2 where \<open>u2 = ''","description":'' @ qD @ t3\<close>
  define qA where \<open>qA = CHR 0x22 # A\<close>
  define t1 where \<open>t1 = '',"address":'' @ qA @ u2\<close>
  have body: \<open>error_envelope N A D = ''[{"error":{"type":'' @ N @ t1\<close>
    by (simp add: error_envelope_def t1_def qA_def u2_def qD_def t3_def)
  have t1_ne: \<open>t1 \<noteq> []\<close> \<open>hd t1 = CHR '',''\<close>
    by (simp_all add: t1_def)
  show \<open>strings_Index (error_envelope N A D) ''type":'' + 6 = 18\<close>
    by (simp add: body)
  \<comment> \<open>the address marker\<close>
  have a1: \<open>strings_Index t1 '',"address'' = 0\<close>
    by (simp add: t1_def)
  have \<open>strings_Index (N @ t1) '',"address'' = int (length N) + strings_Index t1 '',"address''\<close>
    by (rule Index_skip) (use N(1) t1_ne a1 in simp_all)
  then have \<open>strings_Index (N @ t1) '',"address'' = int (length N)\<close>
    using a1 by simp
  then show \<open>strings_Index (error_envelope N A D) '',"address'' = 18 + int (length N)\<close>
    by (simp add: body)
  \<comment> \<open>the closing marker\<close>
  have c3: \<open>strings_Index t3 ''"}}'' = 0\<close>
    by (simp add: t3_def)
  have \<open>strings_Index (qD @ t3) ''"}}'' = int (length qD) + strings_Index t3 ''"}}''\<close>
    by (rule Index_skip) (use D c3 in \<open>simp_all add: qD_def t3_def\<close>)
  then have cD: \<open>strings_Index (qD @ t3) ''"}}'' = 1 + int (length D)\<close>
    using c3 by (simp add: qD_def)
  have c2: \<open>strings_Index u2 ''"}}'' = 17 + int (length D)\<close>
    using cD by (simp add: u2_def)
  have u2_ne: \<open>u2 \<noteq> []\<close> \<open>hd u2 = CHR 0x22\<close>
    by (simp_all add: u2_def)
  have \<open>strings_Index (qA @ u2) ''"}}'' = int (length qA) + strings_Index u2 ''"}}''\<close>
    by (rule Index_skip) (use A(2) u2_ne c2 in \<open>simp_all add: qA_def\<close>)
  then have cA: \<open>strings_Index (qA @ u2) ''"}}'' = 18 + int (length A) + int (length D)\<close>
    using c2 by (simp add: qA_def)
  have c1: \<open>strings_Index t1 ''"}}'' = 29 + int (length A) + int (length D)\<close>
    using cA by (simp add: t1_def)
  have \<open>strings_Index (N @ t1) ''"}}'' = int (length N) + strings_Index t1 ''"}}''\<close>
    by (rule Index_skip) (use N(3) t1_ne c1 in simp_all)
  then have \<open>strings_Index (N @ t1) ''"}}'' =
      int (length N) + (29 + int (length A) + int (length D))\<close>
    using c1 by simp
  then show \<open>strings_Index (error_envelope N A D) ''"}}'' =
           47 + int (length N) + int (length A) + int (length D)\<close>
    by (simp add: body)
  \<comment> \<open>the description marker\<close>
  define r2 where \<open>r2 = '',"description":'' @ qD @ t3\<close>
  define Aq where \<open>Aq = A @ [CHR 0x22]\<close>
  have t1': \<open>t1 = '',"address":"'' @ Aq @ r2\<close>
    by (simp add: t1_def qA_def u2_def r2_def Aq_def)
  have d2: \<open>strings_Index r2 ''description":"'' = 2\<close>
    by (simp add: r2_def qD_def)
  have r2_ne: \<open>r2 \<noteq> []\<close> \<open>hd r2 = CHR '',''\<close>
    by (simp_all add: r2_def)
  have \<open>strings_Index (Aq @ r2) ''description":"'' =
      int (length Aq) + strings_Index r2 ''description":"''\<close>
    by (rule Index_skip) (use A(1) r2_ne d2 in \<open>simp_all add: Aq_def\<close>)
  then have dA: \<open>strings_Index (Aq @ r2) ''description":"'' = 3 + int (length A)\<close>
    using d2 by (simp add: Aq_def)
  have d1: \<open>strings_Index t1 ''description":"'' = 15 + int (length A)\<close>
    using dA by (simp add: t1')
  have \<open>strings_Index (N @ t1) ''description":"'' =
      int (length N) + strings_Index t1 ''description":"''\<close>
    by (rule Index_skip) (use N(2) t1_ne d1 in simp_all)
  then have \<open>strings_Index (N @ t1) ''description":"'' = int (length N) + (15 + int (length A))\<close>
    using d1 by simp
  then show \<open>strings_Index (error_envelope N A D) ''description":"'' + 14 =
           47 + int (length N) + int (length A)\<close>
    by (simp add: body)
qed

lemma slice_error_envelope:
  \<open>slice (error_envelope N A D) 18 (18 + int (length N)) = Returns N\<close>
  \<open>slice (error_envelope N A D) (47 + int (length N) + int (length A))
     (47 + int (length N) + int (length A) + int (length D)) = Returns D\<close>
proof -
  have \<open>error_envelope N A D = ''[{"error":{"type":'' @ N @
      ('',"address":"'' @ A @ ''","description":"'' @ D @ ''"}}]'')\<close>
    by (simp add: error_envelope_def)
  then show \<open>slice (error_envelope N A D) 18 (18 + int (length N)) = Returns N\<close>
    using slice_middle [of 18 \<open>''[{"error":{"type":''\<close> \<open>18 + int (length N)\<close> N] by simp
  have \<open>error_envelope N A D =
      (''[{"error":{"type":'' @ N @ '',"address":"'' @ A @ ''","description":"'') @ D @ ''"}}]''\<close>
    by (simp add: error_envelope_def)
  then show \<open>slice (error_envelope N A D) (47 + int (length N) + int (length A))
     (47 + int (length N) + int (length A) + int (length D)) = Returns D\<close>
    using slice_middle [of \<open>47 + int (length N) + int (length A)\<close>
       \<open>''[{"error":{"type":'' @ N @ '',"address":"'' @ A @ ''","description":"''\<close>
       \<open>47 + int (length N) + int (length A) + int (length D)\<close> D \<open>''"}}]''\<close>]
    by simp
qed

lemma Contains_error_envelope: \<open>strings_Contains (error_envelope N A D) ''"error"''\<close>
  by (simp add: error_envelope_def strings_Contains_def)

lemma HandleResponse_envelope:
  assumes \<open>\<not> strings_Contains N '',"address''\<close>
      \<open>\<not> strings_Contains N ''description":"''\<close>
      \<open>\<not> strings_Contains N ''"}}''\<close>
    and \<open>\<not> strings_Contains (A @ [CHR 0x22]) ''description":"''\<close>
      \<open>\<not> strings_Contains (CHR 0x22 # A) ''"}}''\<close>
    and \<open>\<not> strings_Contains (CHR 0x22 # D) ''"}}''\<close>
  shows \<open>HandleResponse \<lparr>StatusCode = c, Body = Inr (error_envelope N A D)\<rparr> =
     Returns ([], nil_Reader,
       Some (errorString (''failed to handle response: error type '' @ N @ '': '' @ D)))\<close>
  by (simp add: HandleResponse_def Contains_error_envelope Index_error_envelope [OF assms]
        slice_error_envelope)

section \<open>strconv.Atoi on decimal keys\<close>

lemma foldl_digits_ge: "n \<le> foldl (\<lambda>n c. n * 10 + digit_val c) n ds"
proof (induction ds arbitrary: n)
  case Nil
  then show ?case by simp
next
  case (Cons c cs)
  have "n \<le> n * 10 + digit_val c" by simp
  also have "\<dots> \<le> foldl (\<lambda>n c. n * 10 + digit_val c) (n * 10 + digit_val c) cs"
    by (rule Cons.IH)
  finally show ?case by simp
qed

lemma ParseUint_loop_digits:
  "list_all is_digit ds \<Longrightarrow> foldl (\<lambda>n c. n * 10 + digit_val c) n ds \<le> 2 ^ 64 - 1 \<Longrightarrow>
   ParseUint_loop n ds = (foldl (\<lambda>n c. n * 10 + digit_val c) n ds, None)"
proof (induction ds arbitrary: n)
  case Nil
  then show ?case by simp
next
  case (Cons c cs)
  let ?n1 = "n * 10 + digit_val c"
  have le: "?n1 \<le> foldl (\<lambda>n c. n * 10 + digit_val c) ?n1 cs"
    by (rule foldl_digits_ge)
  with Cons.prems(2) have n1: "?n1 \<le> 2 ^ 64 - 1" by simp
  then have n: "\<not> n \<ge> (2 ^ 64 - 1) div 10 + 1" by simp
  have "ParseUint_loop ?n1 cs = (foldl (\<lambda>n c. n * 10 + digit_val c) ?n1 cs, None)"
    using Cons.prems by (intro Cons.IH) simp_all
  with Cons.prems(1) n n1 show ?case
    by (simp add: Let_def)
qed

lemma ParseUint_loop_error:
  "ParseUint_loop n ds = (un, Some e) \<Longrightarrow>
   e = ErrSyntax \<or> (e = ErrRange \<and> un = 2 ^ 64 - 1)"
  by (induction ds arbitrary: n) (auto simp: Let_def split: if_splits)

lemma ParseUint_loop_nondigit:
  "\<not> list_all is_digit ds \<Longrightarrow> snd (ParseUint_loop n ds) \<noteq> None"
  by (induction ds arbitrary: n) (auto simp: Let_def)

lemma Atoi_nondigit:
  assumes "\<not> list_all is_digit ds" "ds \<noteq> []"
    "s \<noteq> []" "ds = (if hd s = CHR ''+'' \<or> hd s = CHR ''-'' then tl s else s)"
  shows "snd (strconv_Atoi s) \<noteq> None"
proof -
  obtain un e where r: "ParseUint_loop 0 ds = (un, Some e)"
    using ParseUint_loop_nondigit [OF assms(1), of 0] by (cases "ParseUint_loop 0 ds") auto
  from ParseUint_loop_error [OF r] show ?thesis
    using assms(2-4) r by (auto simp: strconv_Atoi_def Let_def ErrSyntax_def ErrRange_def)
qed

lemma Atoi_fails:
  assumes "\<not> decimal_key k"
  shows "snd (strconv_Atoi k) \<noteq> None"
proof (cases k)
  case Nil
  then show ?thesis by (simp add: strconv_Atoi_def)
next
  case (Cons c cs)
  show ?thesis
  proof (cases "c = CHR ''+'' \<or> c = CHR ''-''")
    case True
    show ?thesis
    proof (cases "cs = []")
      case True
      with \<open>c = CHR ''+'' \<or> c = CHR ''-''\<close> Cons show ?thesis
        by (auto simp: strconv_Atoi_def)
    next
      case False
      with True Cons assms have "\<not> list_all is_digit cs"
        by (auto simp: decimal_key_def)
      then show ?thesis
        using False True Cons by (intro Atoi_nondigit [of cs]) auto
    qed
  next
    case False
    with Cons assms have "\<not> list_all is_digit k"
      by (auto simp: decimal_key_def)
    then show ?thesis
      using False Cons by (intro Atoi_nondigit [of k]) auto
  qed
qed

lemma Atoi_decimal:
  assumes "decimal_key k" "- (2 ^ 63) \<le> key_value k" "key_value k < 2 ^ 63"
  shows "strconv_Atoi k = (key_value k, None)"
proof -
  from assms(1) obtain c cs where k: "k = c # cs"
    by (cases k) (auto simp: decimal_key_def)
  show ?thesis
  proof (cases "c = CHR ''+'' \<or> c = CHR ''-''")
    case True
    with assms(1) k have cs: "cs \<noteq> []" "list_all is_digit cs"
      by (auto simp: decimal_key_def)
    from True assms(2,3) k have "decimal_nat cs \<le> 2 ^ 63"
      by (auto simp: key_value_def)
    then have "foldl (\<lambda>n c. n * 10 + digit_val c) 0 cs \<le> 2 ^ 64 - 1"
      by (simp add: decimal_nat_def)
    from ParseUint_loop_digits [OF cs(2) this]
    have "ParseUint_loop 0 cs = (decimal_nat cs, None)"
      by (simp add: decimal_nat_def)
    with True assms(2,3) k cs show ?thesis
      by (auto simp: strconv_Atoi_def key_value_def Let_def)
  next
    case False
    with assms(1) k have ds: "list_all is_digit k"
      by (auto simp: decimal_key_def)
    from False assms(3) k have "decimal_nat k < 2 ^ 63"
      by (auto simp: key_value_def)
    then have "foldl (\<lambda>n c. n * 10 + digit_val c) 0 k \<le> 2 ^ 64 - 1"
      by (simp add: decimal_nat_def)
    from ParseUint_loop_digits [OF ds this]
    have "ParseUint_loop 0 k = (decimal_nat k, None)"
      by (simp add: decimal_nat_def)
    with False assms(3) k show ?thesis
      by (auto simp: strconv_Atoi_def key_value_def Let_def)
  qed
qed


section \<open>The transport helper and the response classifier\<close>

lemma HandleResponse_unauthorized:
  \<open>HandleResponse \<lparr>StatusCode = 200, Body = Inr unauthorized\<rparr> =
     Returns ([], nil_Reader,
       Some (errorString ''failed to handle response: error type 1: unauthorized user''))\<close>
  by (simp add: HandleResponse_def unauthorized_def strings_Contains_def slice_def)

text \<open>
  Claim C1. Login is to return an error and leave the Username alone when the bridge
  answers the GET of \<^verbatim>\<open>/api/{token}\<close> with an error envelope. The code does not: Get
  never hands its response to HandleResponse, so for the answer \<open>unauthorized\<close>, which
  HandleResponse classifies as error type 1, Login returns nil and stores the rejected
  token.
\<close>

theorem Login_stores_rejected_token:
  \<open>HandleResponse \<lparr>StatusCode = 200, Body = Inr unauthorized\<rparr> =
     Returns ([], nil_Reader,
       Some (errorString ''failed to handle response: error type 1: unauthorized user''))
   \<and> Username (load store0 0) = []
   \<and> snd (Login (serving unauthorized) store0 0 ''badtoken'') = None
   \<and> Username (load (fst (Login (serving unauthorized) store0 0 ''badtoken'')) 0) = ''badtoken''\<close>
  by (simp add: HandleResponse_unauthorized Login_def Get_def serving_def load_def store0_def
        Bridge_zero_def)

text \<open>
  Claim C2. Every verb is to pass its response through HandleResponse. Put, Post and
  Delete do; Get returns the raw body of an error envelope with a nil error.
\<close>

theorem Get_returns_unclassified_envelope:
  \<open>Get (serving unauthorized) (load store0 0) ''/api/badtoken/lights'' =
     (unauthorized, NewReader unauthorized, None)
   \<and> Put (serving unauthorized) (load store0 0) ''/api/badtoken/lights/1/state'' (other ()) =
       Returns ([], nil_Reader,
         Some (errorString ''failed to handle response: error type 1: unauthorized user''))
   \<and> Post (serving unauthorized) (load store0 0) ''/api/badtoken/lights'' nil =
       Returns ([], nil_Reader,
         Some (errorString ''failed to handle response: error type 1: unauthorized user''))
   \<and> Delete (serving unauthorized) (load store0 0) ''/api/badtoken/config/whitelist/x'' =
       Returns (Some (wrapError ''unable to access bridge: ''
         (errorString ''failed to handle response: error type 1: unauthorized user'')))\<close>
  by (simp add: Get_def Put_def Post_def Post_send_def Delete_def serving_def
        HandleResponse_unauthorized)

text \<open>
  Claim C3. No response body is to end the process. Two do: a body that contains
  \<^verbatim>\<open>"error"\<close> without the markers of the envelope (here the answer to renaming a light
  to \<^verbatim>\<open>error\<close>) makes HandleResponse slice from 5 to -1, and an empty answer to the
  registration POST makes CreateUser slice from 1 to -1.
\<close>

theorem slices_panic:
  \<open>HandleResponse
      \<lparr>StatusCode = 200, Body = Inr ''[{"success":{"/lights/1/name":"error"}}]''\<rparr> =
     Panic ''runtime error: slice bounds out of range''
   \<and> CreateUser (serving []) store0 0 ''test-app'' =
       Panic ''runtime error: slice bounds out of range''\<close>
  by (simp add: HandleResponse_def CreateUser_def Post_def Post_send_def strings_Contains_def
        slice_def serving_def)

lemma witness_fields:
  \<open>\<not> strings_Contains ''-1'' '',"address''\<close>
  \<open>\<not> strings_Contains ''-1'' ''description":"''\<close>
  \<open>\<not> strings_Contains ''-1'' ''"}}''\<close>
  \<open>\<not> strings_Contains (''/lights/1/state'' @ [CHR 0x22]) ''description":"''\<close>
  \<open>\<not> strings_Contains (CHR 0x22 # ''/lights/1/state'') ''"}}''\<close>
  \<open>\<not> strings_Contains (CHR 0x22 # quoted_description) ''"}}''\<close>
  \<open>\<not> strings_Contains ''{"1":{"name":"Desk"}}'' ''"error"''\<close>
  by (simp_all add: strings_Contains_def quoted_description_def)

text \<open>
  Claim C5, as stated, fails for bodies of the documented shape in which a marker that
  HandleResponse searches for comes before its place: a description that holds an
  escaped quote followed by \<^verbatim>\<open>}}\<close> is cut at that quote, an address that holds the
  description marker moves the start of the description, and a description or an
  address that begins with \<^verbatim>\<open>}}\<close> makes the second slice panic.
\<close>

theorem HandleResponse_envelope_counterexample:
  \<open>HandleResponse
      \<lparr>StatusCode = 200, Body = Inr (error_envelope ''1'' ''/lights'' escaped_description)\<rparr> =
     Returns ([], nil_Reader,
       Some (errorString (''failed to handle response: error type 1: value '' @ [CHR 0x5C])))
   \<and> HandleResponse
      \<lparr>StatusCode = 200, Body = Inr (error_envelope ''1'' ''/lights'' escaped_description)\<rparr> \<noteq>
     Returns ([], nil_Reader,
       Some (errorString
         (''failed to handle response: error type '' @ ''1'' @ '': '' @ escaped_description)))
   \<and> HandleResponse \<lparr>StatusCode = 200, Body = Inr (error_envelope ''1'' ''/lights'' ''}}'')\<rparr> =
     Panic ''runtime error: slice bounds out of range''
   \<and> HandleResponse
      \<lparr>StatusCode = 200, Body = Inr (error_envelope ''1'' duplicated_description ''second'')\<rparr> =
     Returns ([], nil_Reader,
       Some (errorString
         ''failed to handle response: error type 1: first","description":"second''))
   \<and> HandleResponse \<lparr>StatusCode = 200, Body = Inr (error_envelope ''1'' ''}}'' ''second'')\<rparr> =
     Panic ''runtime error: slice bounds out of range''\<close>
  by (simp add: HandleResponse_def error_envelope_def escaped_description_def
        duplicated_description_def strings_Contains_def slice_def)

text \<open>
  Claim C5, amended. Take the documented envelope with a type text \<open>N\<close>, an address
  \<open>A\<close> and a description \<open>D\<close> such that the address marker, the description marker and
  the closing marker \<^verbatim>\<open>"}}\<close> do not occur in \<open>N\<close> (no number holds them), the
  description marker does not occur in \<open>A\<close> with its closing quote, and the closing
  marker does not occur in \<open>A\<close> or in \<open>D\<close> with their opening quote. Then HandleResponse
  fails with the message \<^verbatim>\<open>failed to handle response: error type N: D\<close>. And a body that
  was read and does not contain the marker \<^verbatim>\<open>"error"\<close> is returned unchanged with a
  reader over the same bytes.
\<close>

theorem HandleResponse_classifies:
  \<open>(\<not> strings_Contains N '',"address'' \<and> \<not> strings_Contains N ''description":"'' \<and>
     \<not> strings_Contains N ''"}}'' \<and>
     \<not> strings_Contains (A @ [CHR 0x22]) ''description":"'' \<and>
     \<not> strings_Contains (CHR 0x22 # A) ''"}}'' \<and>
     \<not> strings_Contains (CHR 0x22 # D) ''"}}'' \<longrightarrow>
     HandleResponse \<lparr>StatusCode = c, Body = Inr (error_envelope N A D)\<rparr> =
       Returns ([], nil_Reader,
         Some (errorString (''failed to handle response: error type '' @ N @ '': '' @ D))))
   \<and> (\<not> strings_Contains body ''"error"'' \<longrightarrow>
     HandleResponse \<lparr>StatusCode = c, Body = Inr body\<rparr> = Returns (body, NewReader body, None))\<close>
  by (simp add: HandleResponse_envelope) (simp add: HandleResponse_def)

theorem HandleResponse_classifies_witness:
  \<open>HandleResponse
      \<lparr>StatusCode = 200,
       Body = Inr (error_envelope ''-1'' ''/lights/1/state'' quoted_description)\<rparr> =
     Returns ([], nil_Reader,
       Some (errorString
         (''failed to handle response: error type -1: '' @ quoted_description)))
   \<and> HandleResponse \<lparr>StatusCode = 200, Body = Inr ''{"1":{"name":"Desk"}}''\<rparr> =
     Returns (''{"1":{"name":"Desk"}}'', NewReader ''{"1":{"name":"Desk"}}'', None)\<close>
  using HandleResponse_classifies [of \<open>''-1''\<close> \<open>''/lights/1/state''\<close> quoted_description 200
      \<open>''{"1":{"name":"Desk"}}''\<close>] witness_fields
  by simp

section \<open>Discovery, identity and authentication: properties\<close>

text \<open>
  Claim C6. For every device type, when the registration POST returns the success
  envelope \<^verbatim>\<open>[{"success":{"username":"abc123"}}]\<close>, CreateUser returns \<^verbatim>\<open>abc123\<close> and
  stores it as the Username of the Bridge; and whenever CreateUser returns without an
  error, the Username it has stored is the token it returns.
\<close>

theorem CreateUser_success_envelope:
  \<open>(Post env (load s bridge) ''/api'' (map_string_string [(''devicetype'', deviceType)]) =
       Returns (''[{"success":{"username":"abc123"}}]'', r, None) \<longrightarrow>
     CreateUser env s bridge deviceType =
       Returns (s\<lparr>cells := (cells s)(bridge := (load s bridge)\<lparr>Username := ''abc123''\<rparr>)\<rparr>,
                ''abc123'', None))
   \<and> (CreateUser env s bridge deviceType = Returns (s', username, None) \<longrightarrow>
        Username (load s' bridge) = username)\<close>
proof (intro conjI impI)
  assume \<open>Post env (load s bridge) ''/api'' (map_string_string [(''devicetype'', deviceType)]) =
       Returns (''[{"success":{"username":"abc123"}}]'', r, None)\<close>
  then show \<open>CreateUser env s bridge deviceType =
       Returns (s\<lparr>cells := (cells s)(bridge := (load s bridge)\<lparr>Username := ''abc123''\<rparr>)\<rparr>,
                ''abc123'', None)\<close>
    by (simp add: CreateUser_def slice_def)
next
  assume "CreateUser env s bridge deviceType = Returns (s', username, None)"
  then show "Username (load s' bridge) = username"
    by (auto simp: CreateUser_def Let_def load_def
          split: outcome.splits prod.splits option.splits)
qed

theorem CreateUser_success_envelope_witness:
  \<open>CreateUser (serving ''[{"success":{"username":"abc123"}}]'') store0 0 ''test-app'' =
     Returns (store0\<lparr>cells := (cells store0)(0 := (load store0 0)\<lparr>Username := ''abc123''\<rparr>)\<rparr>,
              ''abc123'', None)
   \<and> Username (load (store0\<lparr>cells := (cells store0)(0 := (load store0 0)\<lparr>Username := ''abc123''\<rparr>)\<rparr>) 0)
       = ''abc123''\<close>
  using CreateUser_success_envelope [of \<open>serving ''[{"success":{"username":"abc123"}}]''\<close>
      store0 0 \<open>''test-app''\<close> \<open>NewReader ''[{"success":{"username":"abc123"}}]''\<close>
      \<open>store0\<lparr>cells := (cells store0)(0 := (load store0 0)\<lparr>Username := ''abc123''\<rparr>)\<rparr>\<close>
      \<open>''abc123''\<close>]
  by (simp add: Post_def Post_send_def serving_def HandleResponse_def strings_Contains_def)

lemma FindBridges_uri:
  \<open>uri (Bridge_zero\<lparr>IPAddress := ''www.meethue.com''\<rparr>) ''/api/nupnp'' =
      ''http://www.meethue.com/api/nupnp''\<close>
  by (simp add: uri_def)

text \<open>
  Claim C7. FindBridges succeeds exactly when the GET of the discovery URL gives a
  response whose body can be read, the decoder gives no error, and the decoded list is
  not empty; it then returns that list. On the body \<^verbatim>\<open>[]\<close>, decoded to the empty list,
  it returns the error \<^verbatim>\<open>no bridges found\<close>, and it returns that error exactly when the
  call and the decoding succeed and the list is empty. Every failure of Get, a failed
  \<^verbatim>\<open>client.Get\<close> or a failed read of the body, gives the failure of Get wrapped as
  \<^verbatim>\<open>unable to locate bridge\<close>, and a failed decoding gives the decoder's error wrapped;
  neither is the error \<^verbatim>\<open>no bridges found\<close>.
\<close>

theorem FindBridges_fails_exactly:
  \<open>(snd (FindBridges env) = None \<longleftrightarrow>
      (\<exists>resp body bridges.
         client_Get env ''http://www.meethue.com/api/nupnp'' = Inr resp \<and>
         Body resp = Inr body \<and>
         json_Unmarshal_Bridges env body = (bridges, None) \<and> bridges \<noteq> []))
   \<and> (client_Get env ''http://www.meethue.com/api/nupnp'' = Inr resp \<and>
        Body resp = Inr ''[]'' \<and> json_Unmarshal_Bridges env ''[]'' = ([], None) \<longrightarrow>
        FindBridges env = ([], Some (errorString ''no bridges found'')))
   \<and> (client_Get env ''http://www.meethue.com/api/nupnp'' = Inl e \<longrightarrow>
        FindBridges env =
          ([], Some (wrapError ''unable to locate bridge: ''
                      (wrapError ''unable to access bridge: '' e))) \<and>
        snd (FindBridges env) \<noteq> Some (errorString ''no bridges found''))
   \<and> (client_Get env ''http://www.meethue.com/api/nupnp'' = Inr resp1 \<and>
        Body resp1 = Inl e1 \<longrightarrow>
        FindBridges env =
          ([], Some (wrapError ''unable to locate bridge: ''
                      (wrapError ''unable to read response body: '' e1))) \<and>
        snd (FindBridges env) \<noteq> Some (errorString ''no bridges found''))
   \<and> (Get env (Bridge_zero\<lparr>IPAddress := ''www.meethue.com''\<rparr>) ''/api/nupnp'' =
          (b, r, Some err) \<longrightarrow>
        FindBridges env = ([], Some (wrapError ''unable to locate bridge: '' err)) \<and>
        snd (FindBridges env) \<noteq> Some (errorString ''no bridges found''))
   \<and> (client_Get env ''http://www.meethue.com/api/nupnp'' = Inr resp2 \<and>
        Body resp2 = Inr body2 \<and> json_Unmarshal_Bridges env body2 = (bridges2, Some e2) \<longrightarrow>
        FindBridges env =
          (bridges2, Some (wrapError ''unable to unmarshal bridge list: '' e2)) \<and>
        snd (FindBridges env) \<noteq> Some (errorString ''no bridges found''))
   \<and> (client_Get env ''http://www.meethue.com/api/nupnp'' = Inr resp3 \<and>
        Body resp3 = Inr body3 \<and> json_Unmarshal_Bridges env body3 = (bridges3, None) \<longrightarrow>
        FindBridges env =
          (if bridges3 = [] then ([], Some (errorString ''no bridges found''))
           else (bridges3, None)))
   \<and> (snd (FindBridges env) = Some (errorString ''no bridges found'') \<longleftrightarrow>
      (\<exists>resp body.
         client_Get env ''http://www.meethue.com/api/nupnp'' = Inr resp \<and>
         Body resp = Inr body \<and> json_Unmarshal_Bridges env body = ([], None)))\<close>
proof -
  note [simp] = FindBridges_def Get_def FindBridges_uri Let_def
  have 1: \<open>snd (FindBridges env) = None \<longleftrightarrow>
      (\<exists>resp body bridges.
         client_Get env ''http://www.meethue.com/api/nupnp'' = Inr resp \<and>
         Body resp = Inr body \<and>
         json_Unmarshal_Bridges env body = (bridges, None) \<and> bridges \<noteq> [])\<close>
    by (auto split: sum.splits prod.splits option.splits)
  have 8: \<open>snd (FindBridges env) = Some (errorString ''no bridges found'') \<longleftrightarrow>
      (\<exists>resp body.
         client_Get env ''http://www.meethue.com/api/nupnp'' = Inr resp \<and>
         Body resp = Inr body \<and> json_Unmarshal_Bridges env body = ([], None))\<close>
    by (auto split: sum.splits prod.splits option.splits)
  have 5: \<open>FindBridges env = ([], Some (wrapError ''unable to locate bridge: '' err)) \<and>
        snd (FindBridges env) \<noteq> Some (errorString ''no bridges found'')\<close>
    if \<open>Get env (Bridge_zero\<lparr>IPAddress := ''www.meethue.com''\<rparr>) ''/api/nupnp'' =
          (b, r, Some err)\<close>
    using that by (auto split: sum.splits)
  have rest: \<open>(client_Get env ''http://www.meethue.com/api/nupnp'' = Inr resp \<and>
        Body resp = Inr ''[]'' \<and> json_Unmarshal_Bridges env ''[]'' = ([], None) \<longrightarrow>
        FindBridges env = ([], Some (errorString ''no bridges found'')))
   \<and> (client_Get env ''http://www.meethue.com/api/nupnp'' = Inl e \<longrightarrow>
        FindBridges env =
          ([], Some (wrapError ''unable to locate bridge: ''
                      (wrapError ''unable to access bridge: '' e))) \<and>
        snd (FindBridges env) \<noteq> Some (errorString ''no bridges found''))
   \<and> (client_Get env ''http://www.meethue.com/api/nupnp'' = Inr resp1 \<and>
        Body resp1 = Inl e1 \<longrightarrow>
        FindBridges env =
          ([], Some (wrapError ''unable to locate bridge: ''
                      (wrapError ''unable to read response body: '' e1))) \<and>
        snd (FindBridges env) \<noteq> Some (errorString ''no bridges found''))
   \<and> (client_Get env ''http://www.meethue.com/api/nupnp'' = Inr resp2 \<and>
        Body resp2 = Inr body2 \<and> json_Unmarshal_Bridges env body2 = (bridges2, Some e2) \<longrightarrow>
        FindBridges env =
          (bridges2, Some (wrapError ''unable to unmarshal bridge list: '' e2)) \<and>
        snd (FindBridges env) \<noteq> Some (errorString ''no bridges found''))
   \<and> (client_Get env ''http://www.meethue.com/api/nupnp'' = Inr resp3 \<and>
        Body resp3 = Inr body3 \<and> json_Unmarshal_Bridges env body3 = (bridges3, None) \<longrightarrow>
        FindBridges env =
          (if bridges3 = [] then ([], Some (errorString ''no bridges found''))
           else (bridges3, None)))\<close>
    by simp
  from 1 5 8 rest show ?thesis by blast
qed

theorem FindBridges_fails_exactly_witness:
  \<open>FindBridges (serving ''[]'') = ([], Some (errorString ''no bridges found''))
   \<and> FindBridges failing_get =
       ([], Some (wrapError ''unable to locate bridge: ''
                   (wrapError ''unable to access bridge: '' (errorString ''dial tcp: timeout''))))
   \<and> FindBridges failing_read =
       ([], Some (wrapError ''unable to locate bridge: ''
                   (wrapError ''unable to read response body: '' (errorString ''unexpected EOF''))))
   \<and> FindBridges failing_decode =
       ([], Some (wrapError ''unable to unmarshal bridge list: ''
                   (errorString ''invalid character'')))
   \<and> FindBridges one_bridge = ([Bridge_zero\<lparr>IPAddress := ''192.168.1.2''\<rparr>], None)\<close>
  using FindBridges_fails_exactly [of \<open>serving ''[]''\<close>
          \<open>\<lparr>StatusCode = 200, Body = Inr ''[]''\<rparr>\<close> _ _ _ _ _ _ _ _ _ _
          \<open>\<lparr>StatusCode = 200, Body = Inr ''[]''\<rparr>\<close> \<open>''[]''\<close> \<open>[]\<close>]
    FindBridges_fails_exactly [of failing_get _ \<open>errorString ''dial tcp: timeout''\<close>
          _ _ \<open>[]\<close> nil_Reader
          \<open>wrapError ''unable to access bridge: '' (errorString ''dial tcp: timeout'')\<close>]
    FindBridges_fails_exactly [of failing_read _ _
          \<open>\<lparr>StatusCode = 200, Body = Inl (errorString ''unexpected EOF'')\<rparr>\<close>
          \<open>errorString ''unexpected EOF''\<close> \<open>[]\<close> nil_Reader
          \<open>wrapError ''unable to read response body: '' (errorString ''unexpected EOF'')\<close>]
    FindBridges_fails_exactly [of failing_decode _ _ _ _ _ _ _
          \<open>\<lparr>StatusCode = 200, Body = Inr ''<html>''\<rparr>\<close> \<open>''<html>''\<close> \<open>[]\<close>
          \<open>errorString ''invalid character''\<close>]
    FindBridges_fails_exactly [of one_bridge _ _ _ _ _ _ _ _ _ _ _
          \<open>\<lparr>StatusCode = 200, Body = Inr ''[{"internalipaddress":"192.168.1.2"}]''\<rparr>\<close>
          \<open>''[{"internalipaddress":"192.168.1.2"}]''\<close>
          \<open>[Bridge_zero\<lparr>IPAddress := ''192.168.1.2''\<rparr>]\<close>]
  by (simp add: serving_def failing_get_def failing_read_def failing_decode_def one_bridge_def
        Get_def)

text \<open>
  Claim C9. NewBridge returns exactly the error of GetInfo on the Bridge it has built for
  the address. On an error the Bridge it hands back is the zero Bridge; when the
  self-description is fetched and decoded, the Bridge holds the address, no token, and
  the decoded identity.
\<close>

theorem NewBridge_all_or_nothing:
  \<open>snd (snd (NewBridge env s ip)) =
      snd (GetInfo env (fst (new s (Bridge_zero\<lparr>IPAddress := ip\<rparr>))) (nextp s))
   \<and> (snd (snd (NewBridge env s ip)) \<noteq> None \<longrightarrow>
        load (fst (NewBridge env s ip)) (fst (snd (NewBridge env s ip))) = Bridge_zero)
   \<and> (client_Get env (''http://'' @ ip @ ''/description.xml'') = Inr resp \<and>
        Body resp = Inr body \<and> xml_Decode env (NewReader body) = (data, None) \<longrightarrow>
        snd (snd (NewBridge env s ip)) = None \<and>
        load (fst (NewBridge env s ip)) (fst (snd (NewBridge env s ip))) =
          \<lparr>IPAddress = ip, Username = [], Info = data\<rparr>)\<close>
proof -
  have 1: \<open>snd (snd (NewBridge env s ip)) =
      snd (GetInfo env (fst (new s (Bridge_zero\<lparr>IPAddress := ip\<rparr>))) (nextp s))\<close>
    by (simp add: NewBridge_def new_def split: prod.splits option.splits)
  have 2: \<open>load (fst (NewBridge env s ip)) (fst (snd (NewBridge env s ip))) = Bridge_zero\<close>
    if \<open>snd (snd (NewBridge env s ip)) \<noteq> None\<close>
    using that
    by (auto simp: NewBridge_def new_def load_def GetInfo_def
          split: prod.splits option.splits)
  have 3: \<open>snd (snd (NewBridge env s ip)) = None \<and>
        load (fst (NewBridge env s ip)) (fst (snd (NewBridge env s ip))) =
          \<lparr>IPAddress = ip, Username = [], Info = data\<rparr>\<close>
    if \<open>client_Get env (''http://'' @ ip @ ''/description.xml'') = Inr resp\<close>
      \<open>Body resp = Inr body\<close> \<open>xml_Decode env (NewReader body) = (data, None)\<close>
    using that
    by (simp add: NewBridge_def new_def load_def GetInfo_def Get_def uri_def Bridge_zero_def)
  from 1 2 3 show ?thesis by blast
qed

theorem NewBridge_all_or_nothing_witness:
  \<open>snd (snd (NewBridge ((serving description_xml)\<lparr>xml_Decode := (\<lambda>r. (hue_info, None))\<rparr>)
       store0 ''192.168.86.27'')) = None
   \<and> load (fst (NewBridge ((serving description_xml)\<lparr>xml_Decode := (\<lambda>r. (hue_info, None))\<rparr>)
             store0 ''192.168.86.27''))
        (fst (snd (NewBridge ((serving description_xml)\<lparr>xml_Decode := (\<lambda>r. (hue_info, None))\<rparr>)
             store0 ''192.168.86.27''))) =
       \<lparr>IPAddress = ''192.168.86.27'', Username = [], Info = hue_info\<rparr>
   \<and> snd (snd (NewBridge
        ((serving description_xml)\<lparr>client_Get := (\<lambda>url. Inl (errorString ''no route to host''))\<rparr>)
        store0 ''192.168.86.27'')) \<noteq> None
   \<and> load (fst (NewBridge
        ((serving description_xml)\<lparr>client_Get := (\<lambda>url. Inl (errorString ''no route to host''))\<rparr>)
        store0 ''192.168.86.27''))
       (fst (snd (NewBridge
        ((serving description_xml)\<lparr>client_Get := (\<lambda>url. Inl (errorString ''no route to host''))\<rparr>)
        store0 ''192.168.86.27''))) = Bridge_zero\<close>
  using NewBridge_all_or_nothing [of
          \<open>(serving description_xml)\<lparr>xml_Decode := (\<lambda>r. (hue_info, None))\<rparr>\<close>
          store0 \<open>''192.168.86.27''\<close> \<open>\<lparr>StatusCode = 200, Body = Inr description_xml\<rparr>\<close>
          description_xml hue_info]
    NewBridge_all_or_nothing [of
          \<open>(serving description_xml)\<lparr>client_Get := (\<lambda>url. Inl (errorString ''no route to host''))\<rparr>\<close>
          store0 \<open>''192.168.86.27''\<close> \<open>\<lparr>StatusCode = 200, Body = Inr description_xml\<rparr>\<close>
          description_xml hue_info]
  by (simp add: serving_def GetInfo_def Get_def new_def load_def)

section \<open>Resource accessors: properties\<close>

lemma GetAllLights_range_ok:
  "\<forall>(k, l)\<in>set kvs. strconv_Atoi k = (key_value k, None) \<Longrightarrow>
   GetAllLights_range bridge kvs acc =
     (acc @ map (\<lambda>(k, l). l\<lparr>Index := key_value k, Bridge := Some bridge\<rparr>) kvs, None)"
  by (induction kvs arbitrary: acc) auto

lemma GetAllSensors_range_ok:
  "\<forall>(k, l)\<in>set kvs. strconv_Atoi k = (key_value k, None) \<Longrightarrow>
   GetAllSensors_range bridge kvs acc =
     (acc @ map (\<lambda>(k, l). l\<lparr>Sensor_Index := key_value k, Sensor_Bridge := Some bridge\<rparr>) kvs,
      None)"
  by (induction kvs arbitrary: acc) auto

lemma GetAllLights_decimal_keys:
  assumes "Get env (load s bridge) (''/api/'' @ Username (load s bridge) @ ''/lights'') =
             (body, r, None)"
    and "json_Unmarshal_LightMap env body = (lightMap, None)"
    and "\<forall>(k, l)\<in>set lightMap.
           decimal_key k \<and> - (2 ^ 63) \<le> key_value k \<and> key_value k < 2 ^ 63"
  shows "GetAllLights env s bridge =
           (map (\<lambda>(k, l). l\<lparr>Index := key_value k, Bridge := Some bridge\<rparr>) lightMap, None)"
proof -
  have "strconv_Atoi k = (key_value k, None)" if "(k, l) \<in> set lightMap" for k l
    using assms(3) that by (intro Atoi_decimal) blast+
  then have "\<forall>(k, l)\<in>set lightMap. strconv_Atoi k = (key_value k, None)"
    by blast
  then have "GetAllLights_range bridge lightMap [] =
      (map (\<lambda>(k, l). l\<lparr>Index := key_value k, Bridge := Some bridge\<rparr>) lightMap, None)"
    using GetAllLights_range_ok [of lightMap bridge "[]"] by simp
  then show ?thesis
    using assms(1,2) by (simp add: GetAllLights_def)
qed

lemma GetAllSensors_decimal_keys:
  assumes "Get env (load s bridge) (''/api/'' @ Username (load s bridge) @ ''/sensors'') =
             (body, r, None)"
    and "json_Unmarshal_SensorMap env body = (sensorList, None)"
    and "\<forall>(k, l)\<in>set sensorList.
           decimal_key k \<and> - (2 ^ 63) \<le> key_value k \<and> key_value k < 2 ^ 63"
  shows "GetAllSensors env s bridge =
           (map (\<lambda>(k, l). l\<lparr>Sensor_Index := key_value k, Sensor_Bridge := Some bridge\<rparr>)
              sensorList, None)"
proof -
  have "strconv_Atoi k = (key_value k, None)" if "(k, l) \<in> set sensorList" for k l
    using assms(3) that by (intro Atoi_decimal) blast+
  then have "\<forall>(k, l)\<in>set sensorList. strconv_Atoi k = (key_value k, None)"
    by blast
  then have "GetAllSensors_range bridge sensorList [] =
      (map (\<lambda>(k, l). l\<lparr>Sensor_Index := key_value k, Sensor_Bridge := Some bridge\<rparr>)
         sensorList, None)"
    using GetAllSensors_range_ok [of sensorList bridge "[]"] by simp
  then show ?thesis
    using assms(1,2) by (simp add: GetAllSensors_def)
qed

lemma Atoi_range_examples:
  "strconv_Atoi ''7'' = (7, None)"
  "strconv_Atoi ''9223372036854775808'' =
     (2 ^ 63 - 1, Some (NumError ''Atoi'' ''9223372036854775808'' ErrRange))"
  "strconv_Atoi ''-9223372036854775809'' =
     (- (2 ^ 63), Some (NumError ''Atoi'' ''-9223372036854775809'' ErrRange))"
  by (simp_all add: strconv_Atoi_def is_digit_def digit_val_def ErrSyntax_def ErrRange_def)

text \<open>
  Claim C4, as stated, fails for a decimal key whose value does not fit the 64-bit
  \<^verbatim>\<open>int\<close>: for the key \<^verbatim>\<open>9223372036854775808\<close> (and for \<^verbatim>\<open>-9223372036854775809\<close>)
  \<^verbatim>\<open>strconv.Atoi\<close> gives a range error, and GetAllLights (GetAllSensors) returns the
  empty list and that error, wrapped, and no resource.
\<close>

theorem GetAll_index_from_key_counterexample:
  "decimal_key ''9223372036854775808''
   \<and> key_value ''9223372036854775808'' = 9223372036854775808
   \<and> GetAllLights range_keys store0 0 =
       ([], Some (wrapError ''unable to convert light index to integer: ''
                   (NumError ''Atoi'' ''9223372036854775808'' ErrRange)))
   \<and> decimal_key ''-9223372036854775809''
   \<and> key_value ''-9223372036854775809'' = - 9223372036854775809
   \<and> GetAllSensors range_keys store0 0 =
       ([], Some (wrapError ''unable to convert sensor index to integer: ''
                   (NumError ''Atoi'' ''-9223372036854775809'' ErrRange)))"
  by (simp add: range_keys_def serving_maps_def serving_def GetAllLights_def GetAllSensors_def
        Get_def Atoi_range_examples decimal_key_def key_value_def decimal_nat_def is_digit_def
        digit_val_def)

text \<open>
  Claim C4, amended. When the lights response decodes to a map whose keys are all
  decimal with values from \<open>-2^63\<close> to \<open>2^63 - 1\<close>, the range of the 64-bit \<^verbatim>\<open>int\<close>,
  GetAllLights returns one light per entry, with the entry's fields, the integer value
  of its key as index, and the queried Bridge as back-reference; GetAllSensors does the
  same for sensors. The map is given in the order in which the loop visits it, so this
  holds for every order of the keys.
\<close>

theorem GetAll_index_from_key:
  "(Get env (load s bridge) (''/api/'' @ Username (load s bridge) @ ''/lights'') =
      (body, r, None) \<and>
    json_Unmarshal_LightMap env body = (lightMap, None) \<and>
    (\<forall>(k, l)\<in>set lightMap.
       decimal_key k \<and> - (2 ^ 63) \<le> key_value k \<and> key_value k < 2 ^ 63) \<longrightarrow>
    GetAllLights env s bridge =
      (map (\<lambda>(k, l). l\<lparr>Index := key_value k, Bridge := Some bridge\<rparr>) lightMap, None))
   \<and> (Get env (load s bridge) (''/api/'' @ Username (load s bridge) @ ''/sensors'') =
      (body', r', None) \<and>
    json_Unmarshal_SensorMap env body' = (sensorList, None) \<and>
    (\<forall>(k, l)\<in>set sensorList.
       decimal_key k \<and> - (2 ^ 63) \<le> key_value k \<and> key_value k < 2 ^ 63) \<longrightarrow>
    GetAllSensors env s bridge =
      (map (\<lambda>(k, l). l\<lparr>Sensor_Index := key_value k, Sensor_Bridge := Some bridge\<rparr>)
         sensorList, None))"
  using GetAllLights_decimal_keys [of env s bridge body r lightMap]
    GetAllSensors_decimal_keys [of env s bridge body' r' sensorList]
  by blast

theorem GetAll_index_from_key_witness:
  "GetAllLights (serving_maps [(''7'', light7), (''2'', light2)] [(''7'', sensor7)]) store0 0 =
     ([light7\<lparr>Index := 7, Bridge := Some 0\<rparr>, light2\<lparr>Index := 2, Bridge := Some 0\<rparr>], None)
   \<and> GetAllSensors (serving_maps [(''7'', light7), (''2'', light2)] [(''7'', sensor7)]) store0 0 =
     ([sensor7\<lparr>Sensor_Index := 7, Sensor_Bridge := Some 0\<rparr>], None)"
  using GetAll_index_from_key [of "serving_maps [(''7'', light7), (''2'', light2)] [(''7'', sensor7)]"
      store0 0 "''{}''" "NewReader ''{}''" "[(''7'', light7), (''2'', light2)]"
      "''{}''" "NewReader ''{}''" "[(''7'', sensor7)]"]
  by (simp add: serving_maps_def serving_def Get_def decimal_key_def key_value_def
        decimal_nat_def is_digit_def digit_val_def)

lemma GetAllLights_range_fails:
  "\<exists>(k, l)\<in>set kvs. snd (strconv_Atoi k) \<noteq> None \<Longrightarrow>
   \<exists>k e. k \<in> fst ` set kvs \<and> snd (strconv_Atoi k) = Some e \<and>
     GetAllLights_range bridge kvs acc =
       ([], Some (wrapError ''unable to convert light index to integer: '' e))"
proof (induction kvs arbitrary: acc)
  case Nil
  then show ?case by simp
next
  case (Cons kv kvs)
  obtain k l where kv: "kv = (k, l)" by (cases kv)
  obtain n err where a: "strconv_Atoi k = (n, err)" by (cases "strconv_Atoi k")
  show ?case
  proof (cases err)
    case None
    with Cons.prems kv a have "\<exists>(k, l)\<in>set kvs. snd (strconv_Atoi k) \<noteq> None"
      by auto
    from Cons.IH [OF this, of "acc @ [l\<lparr>Index := n, Bridge := Some bridge\<rparr>]"]
    show ?thesis using kv a None by auto
  next
    case (Some e)
    with kv a show ?thesis by force
  qed
qed

lemma GetAllSensors_range_fails:
  "\<exists>(k, l)\<in>set kvs. snd (strconv_Atoi k) \<noteq> None \<Longrightarrow>
   \<exists>k e. k \<in> fst ` set kvs \<and> snd (strconv_Atoi k) = Some e \<and>
     GetAllSensors_range bridge kvs acc =
       ([], Some (wrapError ''unable to convert sensor index to integer: '' e))"
proof (induction kvs arbitrary: acc)
  case Nil
  then show ?case by simp
next
  case (Cons kv kvs)
  obtain k l where kv: "kv = (k, l)" by (cases kv)
  obtain n err where a: "strconv_Atoi k = (n, err)" by (cases "strconv_Atoi k")
  show ?case
  proof (cases err)
    case None
    with Cons.prems kv a have "\<exists>(k, l)\<in>set kvs. snd (strconv_Atoi k) \<noteq> None"
      by auto
    from Cons.IH [OF this, of "acc @ [l\<lparr>Sensor_Index := n, Sensor_Bridge := Some bridge\<rparr>]"]
    show ?thesis using kv a None by auto
  next
    case (Some e)
    with kv a show ?thesis by force
  qed
qed

lemma GetAllLights_bad_key:
  assumes "Get env (load s bridge) (''/api/'' @ Username (load s bridge) @ ''/lights'') =
             (body, r, None)"
    and "json_Unmarshal_LightMap env body = (lightMap, None)"
    and "\<exists>(k, l)\<in>set lightMap. \<not> decimal_key k"
  shows "\<exists>k e. k \<in> fst ` set lightMap \<and> snd (strconv_Atoi k) = Some e \<and>
            GetAllLights env s bridge =
              ([], Some (wrapError ''unable to convert light index to integer: '' e))"
proof -
  have "\<exists>(k, l)\<in>set lightMap. snd (strconv_Atoi k) \<noteq> None"
    using assms(3) Atoi_fails by blast
  from GetAllLights_range_fails [OF this, of bridge "[]"]
  show ?thesis
    using assms(1,2) by (simp add: GetAllLights_def)
qed

lemma GetAllSensors_bad_key:
  assumes "Get env (load s bridge) (''/api/'' @ Username (load s bridge) @ ''/sensors'') =
             (body, r, None)"
    and "json_Unmarshal_SensorMap env body = (sensorList, None)"
    and "\<exists>(k, l)\<in>set sensorList. \<not> decimal_key k"
  shows "\<exists>k e. k \<in> fst ` set sensorList \<and> snd (strconv_Atoi k) = Some e \<and>
            GetAllSensors env s bridge =
              ([], Some (wrapError ''unable to convert sensor index to integer: '' e))"
proof -
  have "\<exists>(k, l)\<in>set sensorList. snd (strconv_Atoi k) \<noteq> None"
    using assms(3) Atoi_fails by blast
  from GetAllSensors_range_fails [OF this, of bridge "[]"]
  show ?thesis
    using assms(1,2) by (simp add: GetAllSensors_def)
qed

lemma Atoi_examples:
  "strconv_Atoi ''7'' = (7, None)"
  "strconv_Atoi ''3T2SvsxvwteNNys'' = (0, Some (NumError ''Atoi'' ''3T2SvsxvwteNNys'' ErrSyntax))"
  "strconv_Atoi ''abc'' = (0, Some (NumError ''Atoi'' ''abc'' ErrSyntax))"
  by (simp_all add: strconv_Atoi_def is_digit_def digit_val_def)

text \<open>
  Claim C10. When some key of the decoded lights map is not decimal, GetAllLights
  returns the empty list and the conversion error of one of the keys, wrapped, and no
  light, also none of those whose keys are decimal; GetAllSensors does the same for
  sensors.
\<close>

theorem GetAll_bad_key:
  "(Get env (load s bridge) (''/api/'' @ Username (load s bridge) @ ''/lights'') =
      (body, r, None) \<and>
    json_Unmarshal_LightMap env body = (lightMap, None) \<and>
    (\<exists>(k, l)\<in>set lightMap. \<not> decimal_key k) \<longrightarrow>
    (\<exists>k e. k \<in> fst ` set lightMap \<and> snd (strconv_Atoi k) = Some e \<and>
       GetAllLights env s bridge =
         ([], Some (wrapError ''unable to convert light index to integer: '' e))))
   \<and> (Get env (load s bridge) (''/api/'' @ Username (load s bridge) @ ''/sensors'') =
      (body', r', None) \<and>
    json_Unmarshal_SensorMap env body' = (sensorList, None) \<and>
    (\<exists>(k, l)\<in>set sensorList. \<not> decimal_key k) \<longrightarrow>
    (\<exists>k e. k \<in> fst ` set sensorList \<and> snd (strconv_Atoi k) = Some e \<and>
       GetAllSensors env s bridge =
         ([], Some (wrapError ''unable to convert sensor index to integer: '' e))))"
  using GetAllLights_bad_key [of env s bridge body r lightMap]
    GetAllSensors_bad_key [of env s bridge body' r' sensorList]
  by blast

theorem GetAll_bad_key_witness:
  "GetAllLights (serving_maps [(''7'', light7), (''3T2SvsxvwteNNys'', light2)]
       [(''7'', sensor7), (''abc'', sensor7)]) store0 0 =
     ([], Some (wrapError ''unable to convert light index to integer: ''
                 (NumError ''Atoi'' ''3T2SvsxvwteNNys'' ErrSyntax)))
   \<and> GetAllSensors (serving_maps [(''7'', light7), (''3T2SvsxvwteNNys'', light2)]
       [(''7'', sensor7), (''abc'', sensor7)]) store0 0 =
     ([], Some (wrapError ''unable to convert sensor index to integer: ''
                 (NumError ''Atoi'' ''abc'' ErrSyntax)))"
  using GetAll_bad_key [of "serving_maps [(''7'', light7), (''3T2SvsxvwteNNys'', light2)]
              [(''7'', sensor7), (''abc'', sensor7)]"
      store0 0 "''{}''" "NewReader ''{}''" "[(''7'', light7), (''3T2SvsxvwteNNys'', light2)]"
      "''{}''" "NewReader ''{}''" "[(''7'', sensor7), (''abc'', sensor7)]"]
  by (auto simp: serving_maps_def serving_def Get_def decimal_key_def is_digit_def
        Atoi_examples)

lemma Contains_not_available: "strings_Contains not_available ''not available''"
  by (simp add: not_available_def strings_Contains_def)

lemma not_Contains_examples:
  \<open>\<not> strings_Contains ''{"name":"Desk"}'' ''not available''\<close>
  \<open>\<not> strings_Contains ''{"name":"Dimmer"}'' ''not available''\<close>
  \<open>\<not> strings_Contains ''<html>'' ''not available''\<close>
  by (simp_all add: strings_Contains_def)

lemma Get_not_domain_error:
  "snd (snd (Get env b path)) \<noteq> Some (errorString m)"
  by (simp add: Get_def split: sum.splits)

lemma Get_failure_not_domain_error:
  "Get env b path = (body, r, Some err) \<Longrightarrow> err \<noteq> errorString m"
  using Get_not_domain_error [of env b path m] by auto

lemma Get_env_Light [simp]:
  "Get (env\<lparr>json_Unmarshal_Light := f\<rparr>) b path = Get env b path"
  by (simp add: Get_def)

lemma Get_env_Sensor [simp]:
  "Get (env\<lparr>json_Unmarshal_Sensor := f\<rparr>) b path = Get env b path"
  by (simp add: Get_def)

text \<open>
  Claim C8. When the GET of a single light returns a body that contains
  \<^verbatim>\<open>not available\<close>, GetLightByIndex returns the zero light and the out-of-bounds
  error, whatever the JSON decoder would do with the body; when the body does not
  contain it and decodes, the light is returned with the index asked for and the Bridge
  as back-reference, and when it does not decode, the decoder's error is returned
  wrapped. When Get fails, GetLightByIndex returns the zero light and the error of Get,
  which is never the out-of-bounds error. GetSensorByIndex does the same for sensors.
\<close>

theorem GetByIndex_not_available:
  "(Get env (load s bridge)
       (''/api/'' @ Username (load s bridge) @ ''/lights/'' @ Itoa i) = (body, r, None) \<longrightarrow>
      (strings_Contains body ''not available'' \<longrightarrow>
         GetLightByIndex (env\<lparr>json_Unmarshal_Light := decode\<rparr>) s bridge i =
           (Light_zero, Some (errorString ''Error: Light selection index out of bounds. '')))
      \<and> (\<not> strings_Contains body ''not available'' \<and>
           json_Unmarshal_Light env body = (light, None) \<longrightarrow>
         GetLightByIndex env s bridge i = (light\<lparr>Index := i, Bridge := Some bridge\<rparr>, None)))
   \<and> (Get env (load s bridge)
       (''/api/'' @ Username (load s bridge) @ ''/sensors/'' @ Itoa i) = (body', r', None) \<longrightarrow>
      (strings_Contains body' ''not available'' \<longrightarrow>
         GetSensorByIndex (env\<lparr>json_Unmarshal_Sensor := decode'\<rparr>) s bridge i =
           (Sensor_zero, Some (errorString ''Sensor selection index out of bounds. '')))
      \<and> (\<not> strings_Contains body' ''not available'' \<and>
           json_Unmarshal_Sensor env body' = (sensor, None) \<longrightarrow>
         GetSensorByIndex env s bridge i =
           (sensor\<lparr>Sensor_Index := i, Sensor_Bridge := Some bridge\<rparr>, None)))
   \<and> snd (snd (Get env' b' path')) \<noteq>
        Some (errorString ''Error: Light selection index out of bounds. '')
   \<and> snd (snd (Get env' b' path')) \<noteq>
        Some (errorString ''Sensor selection index out of bounds. '')
   \<and> (Get env (load s bridge)
       (''/api/'' @ Username (load s bridge) @ ''/lights/'' @ Itoa i) = (bf, rf, Some err) \<longrightarrow>
      GetLightByIndex env s bridge i = (Light_zero, Some err) \<and>
      err \<noteq> errorString ''Error: Light selection index out of bounds. '')
   \<and> (Get env (load s bridge)
       (''/api/'' @ Username (load s bridge) @ ''/sensors/'' @ Itoa i) = (bf', rf', Some err') \<longrightarrow>
      GetSensorByIndex env s bridge i = (Sensor_zero, Some err') \<and>
      err' \<noteq> errorString ''Sensor selection index out of bounds. '')
   \<and> (Get env (load s bridge)
       (''/api/'' @ Username (load s bridge) @ ''/lights/'' @ Itoa i) = (bd, rd, None) \<and>
      \<not> strings_Contains bd ''not available'' \<and>
      json_Unmarshal_Light env bd = (ld, Some ed) \<longrightarrow>
      GetLightByIndex env s bridge i =
        (Light_zero, Some (wrapError ''unable to unmarshal light data: '' ed)))
   \<and> (Get env (load s bridge)
       (''/api/'' @ Username (load s bridge) @ ''/sensors/'' @ Itoa i) = (bd', rd', None) \<and>
      \<not> strings_Contains bd' ''not available'' \<and>
      json_Unmarshal_Sensor env bd' = (ld', Some ed') \<longrightarrow>
      GetSensorByIndex env s bridge i =
        (Sensor_zero, Some (wrapError ''unable to unmarshal light data: '' ed')))"
  by (simp add: GetLightByIndex_def GetSensorByIndex_def Get_not_domain_error
        Get_failure_not_domain_error)

theorem GetByIndex_not_available_witness:
  \<open>GetLightByIndex (serving not_available) store0 0 99 =
     (Light_zero, Some (errorString ''Error: Light selection index out of bounds. ''))
   \<and> GetSensorByIndex (serving not_available) store0 0 99 =
     (Sensor_zero, Some (errorString ''Sensor selection index out of bounds. ''))
   \<and> GetLightByIndex ((serving ''{"name":"Desk"}'')\<lparr>json_Unmarshal_Light := (\<lambda>b. (light7, None))\<rparr>)
       store0 0 7 = (light7\<lparr>Index := 7, Bridge := Some 0\<rparr>, None)
   \<and> GetSensorByIndex
       ((serving ''{"name":"Dimmer"}'')\<lparr>json_Unmarshal_Sensor := (\<lambda>b. (sensor7, None))\<rparr>)
       store0 0 7 = (sensor7\<lparr>Sensor_Index := 7, Sensor_Bridge := Some 0\<rparr>, None)
   \<and> GetLightByIndex failing_get store0 0 7 =
       (Light_zero, Some (wrapError ''unable to access bridge: '' (errorString ''dial tcp: timeout'')))
   \<and> GetSensorByIndex failing_get store0 0 7 =
       (Sensor_zero, Some (wrapError ''unable to access bridge: '' (errorString ''dial tcp: timeout'')))
   \<and> GetLightByIndex failing_decode store0 0 7 =
       (Light_zero, Some (wrapError ''unable to unmarshal light data: ''
                           (errorString ''invalid character'')))
   \<and> GetSensorByIndex failing_decode store0 0 7 =
       (Sensor_zero, Some (wrapError ''unable to unmarshal light data: ''
                            (errorString ''invalid character'')))\<close>
proof -
  have na: \<open>GetLightByIndex (serving not_available) store0 0 99 =
     (Light_zero, Some (errorString ''Error: Light selection index out of bounds. ''))
   \<and> GetSensorByIndex (serving not_available) store0 0 99 =
     (Sensor_zero, Some (errorString ''Sensor selection index out of bounds. ''))\<close>
    using GetByIndex_not_available [where env = \<open>serving not_available\<close> and s = store0
        and bridge = 0 and i = 99 and body = not_available and r = \<open>NewReader not_available\<close>
        and decode = \<open>\<lambda>b. (Light_zero, None)\<close>
        and body' = not_available and r' = \<open>NewReader not_available\<close>
        and decode' = \<open>\<lambda>b. (Sensor_zero, None)\<close>
        and light = \<open>Light_zero\<close>
        and sensor = \<open>Sensor_zero\<close>
        and env' = \<open>serving []\<close>
        and b' = \<open>Bridge_zero\<close>
        and path' = \<open>[]\<close>
        and bf = \<open>[]\<close>
        and rf = \<open>nil_Reader\<close>
        and err = \<open>errorString []\<close>
        and bf' = \<open>[]\<close>
        and rf' = \<open>nil_Reader\<close>
        and err' = \<open>errorString []\<close>
        and bd = \<open>[]\<close>
        and rd = \<open>nil_Reader\<close>
        and ld = \<open>Light_zero\<close>
        and ed = \<open>errorString []\<close>
        and bd' = \<open>[]\<close>
        and rd' = \<open>nil_Reader\<close>
        and ld' = \<open>Sensor_zero\<close>
        and ed' = \<open>errorString []\<close>]
    by (simp add: Contains_not_available serving_def Get_def)
  have light: \<open>GetLightByIndex
       ((serving ''{"name":"Desk"}'')\<lparr>json_Unmarshal_Light := (\<lambda>b. (light7, None))\<rparr>)
       store0 0 7 = (light7\<lparr>Index := 7, Bridge := Some 0\<rparr>, None)\<close>
    using GetByIndex_not_available [where
        env = \<open>(serving ''{"name":"Desk"}'')\<lparr>json_Unmarshal_Light := (\<lambda>b. (light7, None))\<rparr>\<close>
        and s = store0 and bridge = 0 and i = 7
        and body = \<open>''{"name":"Desk"}''\<close> and r = \<open>NewReader ''{"name":"Desk"}''\<close>
        and light = light7
        and decode = \<open>\<lambda>b. (Light_zero, None)\<close>
        and body' = \<open>[]\<close>
        and r' = \<open>nil_Reader\<close>
        and decode' = \<open>\<lambda>b. (Sensor_zero, None)\<close>
        and sensor = \<open>Sensor_zero\<close>
        and env' = \<open>serving []\<close>
        and b' = \<open>Bridge_zero\<close>
        and path' = \<open>[]\<close>
        and bf = \<open>[]\<close>
        and rf = \<open>nil_Reader\<close>
        and err = \<open>errorString []\<close>
        and bf' = \<open>[]\<close>
        and rf' = \<open>nil_Reader\<close>
        and err' = \<open>errorString []\<close>
        and bd = \<open>[]\<close>
        and rd = \<open>nil_Reader\<close>
        and ld = \<open>Light_zero\<close>
        and ed = \<open>errorString []\<close>
        and bd' = \<open>[]\<close>
        and rd' = \<open>nil_Reader\<close>
        and ld' = \<open>Sensor_zero\<close>
        and ed' = \<open>errorString []\<close>]
    by (simp add: not_Contains_examples serving_def Get_def)
  have sensor: \<open>GetSensorByIndex
       ((serving ''{"name":"Dimmer"}'')\<lparr>json_Unmarshal_Sensor := (\<lambda>b. (sensor7, None))\<rparr>)
       store0 0 7 = (sensor7\<lparr>Sensor_Index := 7, Sensor_Bridge := Some 0\<rparr>, None)\<close>
    using GetByIndex_not_available [where
        env = \<open>(serving ''{"name":"Dimmer"}'')\<lparr>json_Unmarshal_Sensor := (\<lambda>b. (sensor7, None))\<rparr>\<close>
        and s = store0 and bridge = 0 and i = 7
        and body' = \<open>''{"name":"Dimmer"}''\<close> and r' = \<open>NewReader ''{"name":"Dimmer"}''\<close>
        and sensor = sensor7
        and body = \<open>[]\<close>
        and r = \<open>nil_Reader\<close>
        and decode = \<open>\<lambda>b. (Light_zero, None)\<close>
        and light = \<open>Light_zero\<close>
        and decode' = \<open>\<lambda>b. (Sensor_zero, None)\<close>
        and env' = \<open>serving []\<close>
        and b' = \<open>Bridge_zero\<close>
        and path' = \<open>[]\<close>
        and bf = \<open>[]\<close>
        and rf = \<open>nil_Reader\<close>
        and err = \<open>errorString []\<close>
        and bf' = \<open>[]\<close>
        and rf' = \<open>nil_Reader\<close>
        and err' = \<open>errorString []\<close>
        and bd = \<open>[]\<close>
        and rd = \<open>nil_Reader\<close>
        and ld = \<open>Light_zero\<close>
        and ed = \<open>errorString []\<close>
        and bd' = \<open>[]\<close>
        and rd' = \<open>nil_Reader\<close>
        and ld' = \<open>Sensor_zero\<close>
        and ed' = \<open>errorString []\<close>]
    by (simp add: not_Contains_examples serving_def Get_def)
  have transport: \<open>GetLightByIndex failing_get store0 0 7 =
       (Light_zero, Some (wrapError ''unable to access bridge: '' (errorString ''dial tcp: timeout'')))
   \<and> GetSensorByIndex failing_get store0 0 7 =
       (Sensor_zero, Some (wrapError ''unable to access bridge: '' (errorString ''dial tcp: timeout'')))\<close>
    using GetByIndex_not_available [where env = failing_get and s = store0 and bridge = 0
        and i = 7 and bf = \<open>[]\<close> and rf = nil_Reader
        and err = \<open>wrapError ''unable to access bridge: '' (errorString ''dial tcp: timeout'')\<close>
        and bf' = \<open>[]\<close> and rf' = nil_Reader
        and err' = \<open>wrapError ''unable to access bridge: '' (errorString ''dial tcp: timeout'')\<close>
        and body = \<open>[]\<close>
        and r = \<open>nil_Reader\<close>
        and decode = \<open>\<lambda>b. (Light_zero, None)\<close>
        and light = \<open>Light_zero\<close>
        and body' = \<open>[]\<close>
        and r' = \<open>nil_Reader\<close>
        and decode' = \<open>\<lambda>b. (Sensor_zero, None)\<close>
        and sensor = \<open>Sensor_zero\<close>
        and env' = \<open>serving []\<close>
        and b' = \<open>Bridge_zero\<close>
        and path' = \<open>[]\<close>
        and bd = \<open>[]\<close>
        and rd = \<open>nil_Reader\<close>
        and ld = \<open>Light_zero\<close>
        and ed = \<open>errorString []\<close>
        and bd' = \<open>[]\<close>
        and rd' = \<open>nil_Reader\<close>
        and ld' = \<open>Sensor_zero\<close>
        and ed' = \<open>errorString []\<close>]
    by (simp add: failing_get_def serving_def Get_def)
  have decode: \<open>GetLightByIndex failing_decode store0 0 7 =
       (Light_zero, Some (wrapError ''unable to unmarshal light data: ''
                           (errorString ''invalid character'')))
   \<and> GetSensorByIndex failing_decode store0 0 7 =
       (Sensor_zero, Some (wrapError ''unable to unmarshal light data: ''
                            (errorString ''invalid character'')))\<close>
    using GetByIndex_not_available [where env = failing_decode and s = store0 and bridge = 0
        and i = 7 and bd = \<open>''<html>''\<close> and rd = \<open>NewReader ''<html>''\<close>
        and ld = Light_zero and ed = \<open>errorString ''invalid character''\<close>
        and bd' = \<open>''<html>''\<close> and rd' = \<open>NewReader ''<html>''\<close>
        and ld' = Sensor_zero and ed' = \<open>errorString ''invalid character''\<close>
        and body = \<open>[]\<close>
        and r = \<open>nil_Reader\<close>
        and decode = \<open>\<lambda>b. (Light_zero, None)\<close>
        and light = \<open>Light_zero\<close>
        and body' = \<open>[]\<close>
        and r' = \<open>nil_Reader\<close>
        and decode' = \<open>\<lambda>b. (Sensor_zero, None)\<close>
        and sensor = \<open>Sensor_zero\<close>
        and env' = \<open>serving []\<close>
        and b' = \<open>Bridge_zero\<close>
        and path' = \<open>[]\<close>
        and bf = \<open>[]\<close>
        and rf = \<open>nil_Reader\<close>
        and err = \<open>errorString []\<close>
        and bf' = \<open>[]\<close>
        and rf' = \<open>nil_Reader\<close>
        and err' = \<open>errorString []\<close>]
    by (simp add: not_Contains_examples failing_decode_def serving_def Get_def)
  from na light sensor transport decode show ?thesis by simp
qed

end
